theory Spec2Isabelle
  imports Complex_Main "HOL-Library.List_Lexorder" "HOL-Library.Char_ord"
begin

section \<open>Python string primitives used by the audit engine\<close>

text \<open>
  The texts of a table, the keywords and the agency names are \<open>char list\<close>, a character
  being a code point below 256. On these code points \<open>str.lower\<close> maps \<open>A..Z\<close> and the
  capital letters \<open>U+00C0..U+00DE\<close> (but not the sign \<open>U+00D7\<close>) to the code point 32
  higher and keeps the length of the text. File names are lists of code points of any
  size, see below.
\<close>

definition lower_char :: "char \<Rightarrow> char" where
  "lower_char c =
     (let n = (of_char c :: nat)
      in if (65 \<le> n \<and> n \<le> 90) \<or> (192 \<le> n \<and> n \<le> 222 \<and> n \<noteq> 215) then char_of (n + 32)
         else c)"

definition py_lower :: "string \<Rightarrow> string" where
  "py_lower s = map lower_char s"

text \<open>\<open>s.find(m)\<close>: the lowest index at which \<open>m\<close> occurs in \<open>s\<close>, \<open>None\<close> for Python's \<open>-1\<close>.\<close>

fun str_find :: "'a list \<Rightarrow> 'a list \<Rightarrow> nat option" where
  "str_find m [] = (if m = [] then Some 0 else None)"
| "str_find m (c # cs) =
     (if take (length m) (c # cs) = m then Some 0 else map_option Suc (str_find m cs))"

text \<open>\<open>s.rfind(ch)\<close> for a single character, with Python's \<open>-1\<close> when it is absent.\<close>

fun rfind_from :: "'a \<Rightarrow> 'a list \<Rightarrow> int \<Rightarrow> int \<Rightarrow> int" where
  "rfind_from ch [] i acc = acc"
| "rfind_from ch (c # cs) i acc = rfind_from ch cs (i + 1) (if c = ch then i else acc)"

definition rfind :: "'a \<Rightarrow> 'a list \<Rightarrow> int" where
  "rfind ch s = rfind_from ch s 0 (- 1)"

text \<open>
  \<open>s.rstrip(chars)\<close> and \<open>s.strip()\<close>; the white space below code point 256 is
  \<open>U+0009..U+000D\<close>, \<open>U+001C..U+0020\<close>, \<open>U+0085\<close> and \<open>U+00A0\<close>.
\<close>

definition rstrip :: "'a list \<Rightarrow> 'a list \<Rightarrow> 'a list" where
  "rstrip chars s = rev (dropWhile (\<lambda>c. c \<in> set chars) (rev s))"

definition is_space :: "char \<Rightarrow> bool" where
  "is_space c =
     (let n = (of_char c :: nat)
      in (9 \<le> n \<and> n \<le> 13) \<or> (28 \<le> n \<and> n \<le> 32) \<or> n = 133 \<or> n = 160)"

definition strip :: "string \<Rightarrow> string" where
  "strip s = rev (dropWhile is_space (rev (dropWhile is_space s)))"

text \<open>\<open>" ".join(xs)\<close>.\<close>

fun join_space :: "string list \<Rightarrow> string" where
  "join_space [] = []"
| "join_space [x] = x"
| "join_space (x # y # ys) = x @ '' '' @ join_space (y # ys)"

text \<open>Decimal rendering of a natural number, as \<open>str(n)\<close> does.\<close>

definition digit_char :: "nat \<Rightarrow> char" where
  "digit_char d = char_of (48 + d)"

fun show_nat :: "nat \<Rightarrow> string" where
  "show_nat n = (if n < 10 then [digit_char n] else show_nat (n div 10) @ [digit_char (n mod 10)])"

declare show_nat.simps [simp del]

section \<open>File-name rules\<close>

text \<open>
  A file name is a list of code points, so that the names in which \<open>str.lower\<close> changes
  the length can be written: the lower case of \<open>U+0130\<close> (capital I with dot above) is
  the two code points \<open>U+0069 U+0307\<close>. The case mapping is given for the code points
  below 256 and for \<open>U+0130\<close>; it leaves the other code points as they are.
\<close>

type_synonym ustring = "nat list"

definition ustr :: "string \<Rightarrow> ustring" where
  "ustr s = map of_char s"

definition lower_code_point :: "nat \<Rightarrow> nat list" where
  "lower_code_point n =
     (if (65 \<le> n \<and> n \<le> 90) \<or> (192 \<le> n \<and> n \<le> 222 \<and> n \<noteq> 215) then [n + 32]
      else if n = 304 then [105, 775]
      else [n])"

definition unicode_lower :: "ustring \<Rightarrow> ustring" where
  "unicode_lower s = concat (map lower_code_point s)"

text \<open>
  \<open>os.path.splitext\<close> (posixpath): the extension starts at the last dot of the last path
  component, unless that component consists of leading dots only up to there.
\<close>

function skip_dots :: "ustring \<Rightarrow> int \<Rightarrow> int \<Rightarrow> bool" where
  "skip_dots p filenameIndex dotIndex =
     (if filenameIndex < dotIndex \<and> 0 \<le> filenameIndex then
        (if p ! nat filenameIndex \<noteq> of_char CHR ''.'' then True
         else skip_dots p (filenameIndex + 1) dotIndex)
      else False)"
  by pat_completeness auto
termination
  by (relation "measure (\<lambda>(p, i, d). nat (d - i))") auto

declare skip_dots.simps [simp del]

definition splitext :: "ustring \<Rightarrow> ustring \<times> ustring" where
  "splitext p =
     (let sepIndex = rfind (of_char CHR ''/'') p;
          dotIndex = rfind (of_char CHR ''.'') p
      in if dotIndex > sepIndex \<and> skip_dots p (sepIndex + 1) dotIndex
         then (take (nat dotIndex) p, drop (nat dotIndex) p)
         else (p, []))"

definition determine_template_type :: "ustring \<Rightarrow> string" where
  "determine_template_type file_name =
     (let lowered = unicode_lower file_name in
      if str_find (ustr ''unsigned'') lowered \<noteq> None then ''unsigned''
      else if str_find (ustr ''signed'') lowered \<noteq> None then ''signed''
      else ''mixed'')"

definition markers :: "ustring list" where
  "markers =
     map ustr
       [''_signedordertemplate'', ''_unsignedordertemplate'', ''_signedorder'',
        ''_unsignedorder'', ''_signed'', ''_unsigned'', ''_ordertemplate'']"

text \<open>The \<open>for marker in markers\<close> loop of \<open>derive_pair_key\<close>.\<close>

fun scan_markers :: "ustring \<Rightarrow> ustring \<Rightarrow> ustring list \<Rightarrow> ustring" where
  "scan_markers base_name lowered [] = base_name"
| "scan_markers base_name lowered (marker # ms) =
     (case str_find marker lowered of
        Some idx \<Rightarrow>
          (let r = rstrip (ustr ''-_ '') (take idx base_name) in if r = [] then base_name else r)
      | None \<Rightarrow> scan_markers base_name lowered ms)"

definition derive_pair_key :: "ustring \<Rightarrow> ustring" where
  "derive_pair_key file_name =
     (let base_name = fst (splitext file_name)
      in scan_markers base_name (unicode_lower base_name) markers)"

text \<open>\<open>occurs_at m s i\<close>: the list \<open>m\<close> occurs in \<open>s\<close> starting at index \<open>i\<close>.\<close>

definition occurs_at :: "'a list \<Rightarrow> 'a list \<Rightarrow> nat \<Rightarrow> bool" where
  "occurs_at m s i = (i + length m \<le> length s \<and> take (length m) (drop i s) = m)"

section \<open>Tables\<close>

text \<open>
  A data frame is its column labels and its rows, one cell per column; a cell is a string
  or missing (\<open>None\<close> for NaN). The row index is the default range index, so the label
  of a row is its position. \<open>cell_of\<close> reads the cell of a row under a column label.
\<close>

type_synonym cell = "string option"

record table =
  columns :: "string list"
  rows :: "cell list list"

definition cell_of :: "string list \<Rightarrow> cell list \<Rightarrow> string \<Rightarrow> cell" where
  "cell_of cols row c = (case map_of (zip cols row) c of Some v \<Rightarrow> v | None \<Rightarrow> None)"

definition column_values :: "table \<Rightarrow> string \<Rightarrow> cell list" where
  "column_values df c = map (\<lambda>row. cell_of (columns df) row c) (rows df)"

text \<open>\<open>df.empty\<close>: some axis has length zero.\<close>

definition df_empty :: "table \<Rightarrow> bool" where
  "df_empty df = (rows df = [] \<or> columns df = [])"

text \<open>\<open>fillna("").astype(str)\<close> on one cell, \<open>dropna().astype(str)\<close> on a column.\<close>

definition fillna_str :: "cell \<Rightarrow> string" where
  "fillna_str v = (case v of None \<Rightarrow> [] | Some s \<Rightarrow> s)"

definition dropna :: "cell list \<Rightarrow> string list" where
  "dropna vs = List.map_filter (\<lambda>v. v) vs"

text \<open>\<open>xs[fmask]\<close>: the entries at which the boolean mask is true.\<close>

definition select_mask :: "bool list \<Rightarrow> 'a list \<Rightarrow> 'a list" where
  "select_mask fmask xs = map snd (filter fst (zip fmask xs))"

section \<open>Column matcher\<close>

definition DEFAULT_FAILURE_KEYWORDS :: "string list" where
  "DEFAULT_FAILURE_KEYWORDS = [''not valid'', ''failed'', ''error'', ''mandatory'', ''missing'']"

definition DEFAULT_STATUS_COLUMNS :: "string list" where
  "DEFAULT_STATUS_COLUMNS =
     [''Remarks'', ''Sent To Physician Status'', ''WAV Document Upload Status'',
      ''Signed By Physician Status'', ''Uploaded Signed Order Status'', ''Order Upload Status'']"

definition SIGNATURE_COLUMN :: string where
  "SIGNATURE_COLUMN = ''Signed By Physician Date''"

definition SENT_TO_PHYSICIAN_COLUMN :: string where
  "SENT_TO_PHYSICIAN_COLUMN = ''Sent To Physician Date''"

definition IDENTIFIER_COLUMNS :: "string list" where
  "IDENTIFIER_COLUMNS = [''OrderId'', ''Order Number'', ''Document Id'']"

record agency_config =
  failure_keywords :: "string list"
  status_columns :: "string list"

definition AGENCY_CONFIG :: "string \<rightharpoonup> agency_config" where
  "AGENCY_CONFIG =
     [''axxess'' \<mapsto> \<lparr>failure_keywords = DEFAULT_FAILURE_KEYWORDS @ [''no patient'', ''non da''],
                      status_columns = DEFAULT_STATUS_COLUMNS\<rparr>,
      ''kinnser'' \<mapsto> \<lparr>failure_keywords = DEFAULT_FAILURE_KEYWORDS,
                       status_columns = DEFAULT_STATUS_COLUMNS @ [''Order Upload Status'']\<rparr>]"

definition resolve_agency_config :: "string \<Rightarrow> agency_config" where
  "resolve_agency_config agency =
     (case AGENCY_CONFIG (py_lower agency) of
        None \<Rightarrow> \<lparr>failure_keywords = DEFAULT_FAILURE_KEYWORDS,
                  status_columns = DEFAULT_STATUS_COLUMNS\<rparr>
      | Some config \<Rightarrow> config)"

text \<open>
  The compiled pattern is the case-insensitive alternation of the escaped keywords, so it
  is represented by the tuple of its literal alternatives. \<open>re_search\<close> is \<open>re.search\<close>
  on such a pattern: an alternative occurs somewhere in the text, ignoring case; the
  alternation of no keyword is the empty pattern, which matches every text.
\<close>

type_synonym pattern = "string list"

definition compile_failure_pattern :: "string list \<Rightarrow> pattern" where
  "compile_failure_pattern keywords_tuple = keywords_tuple"

definition re_search :: "pattern \<Rightarrow> string \<Rightarrow> bool" where
  "re_search pat s =
     (pat = [] \<or> (\<exists>k\<in>set pat. str_find (py_lower k) (py_lower s) \<noteq> None))"

text \<open>The \<open>for column in status_columns\<close> loop of \<open>build_failure_mask\<close>.\<close>

fun scan_status_columns ::
  "table \<Rightarrow> pattern \<Rightarrow> string list \<Rightarrow> bool list \<times> string list \<Rightarrow> bool list \<times> string list"
where
  "scan_status_columns df pat [] (fmask, inspected_columns) = (fmask, inspected_columns)"
| "scan_status_columns df pat (column # cs) (fmask, inspected_columns) =
     (if column \<in> set (columns df) then
        scan_status_columns df pat cs
          (map2 (\<or>) fmask (map (\<lambda>v. re_search pat (fillna_str v)) (column_values df column)),
           inspected_columns @ [column])
      else scan_status_columns df pat cs (fmask, inspected_columns))"

definition row_text :: "table \<Rightarrow> string list" where
  "row_text df =
     map (\<lambda>row. join_space (map (\<lambda>c. fillna_str (cell_of (columns df) row c)) (columns df)))
       (rows df)"

definition build_failure_mask ::
  "table \<Rightarrow> string list \<Rightarrow> string list \<Rightarrow> bool list \<times> string list \<times> pattern"
where
  "build_failure_mask df keywords status_cols =
     (if df_empty df then
        ([], [], compile_failure_pattern (sorted_list_of_set (set keywords)))
      else
        (let fmask = replicate (length (rows df)) False;
             compiled_pattern = compile_failure_pattern (sorted_list_of_set (set keywords));
             (fmask, inspected_columns) =
               scan_status_columns df compiled_pattern status_cols (fmask, []);
             fmask = map2 (\<or>) fmask (map (re_search compiled_pattern) (row_text df))
         in (fmask, inspected_columns, compiled_pattern)))"

section \<open>Identifier extractor\<close>

fun extract_from :: "table \<Rightarrow> string list \<Rightarrow> string set" where
  "extract_from df [] = {}"
| "extract_from df (column # cs) =
     (if column \<in> set (columns df) then set (map strip (dropna (column_values df column)))
      else extract_from df cs)"

definition extract_order_identifiers :: "table \<Rightarrow> string set" where
  "extract_order_identifiers df = extract_from df IDENTIFIER_COLUMNS"

section \<open>SLA calculator\<close>

text \<open>
  What one run of the engine takes from outside: the results of \<open>pd.to_datetime\<close>, the
  clock, the configured threshold and the floating-point arithmetic.
  \<^item> \<open>pd_to_datetime rt line vs i\<close> is the timestamp that the call of \<open>pd.to_datetime\<close>
    at that line of \<open>main.py\<close> gives at position \<open>i\<close> of the column \<open>vs\<close>, in
    nanoseconds since the epoch, \<open>None\<close> for NaT. It belongs to the call and to the whole
    column: the format is inferred per column and texts such as \<open>now\<close> are resolved when
    the call is made.
  \<^item> \<open>pd_tz_aware rt line vs\<close> tells whether that call gives a timezone-aware column.
  \<^item> \<open>utcnow\<close> is the reading of \<open>datetime.utcnow()\<close>, a timezone-naive value, and
    \<open>threshold_days\<close> the setting \<open>pending_overdue_threshold_days\<close>.
  \<^item> \<open>float_round_mean xs\<close> is \<open>round(mean(xs), 2)\<close> in floating point,
    \<open>float_success_rate k n\<close> the text \<open>f"{(k / n) * 100:.1f}%"\<close> and
    \<open>float_failure_rate k n\<close> the text \<open>f"{100.0 - (k / n) * 100:.1f}%"\<close>.
\<close>

record runtime =
  pd_to_datetime :: "nat \<Rightarrow> cell list \<Rightarrow> nat \<Rightarrow> int option"
  pd_tz_aware :: "nat \<Rightarrow> cell list \<Rightarrow> bool"
  utcnow :: int
  threshold_days :: int
  float_round_mean :: "int list \<Rightarrow> rat"
  float_success_rate :: "int \<Rightarrow> int \<Rightarrow> string"
  float_failure_rate :: "int \<Rightarrow> int \<Rightarrow> string"

datatype py_error = TypeError

definition to_datetime :: "runtime \<Rightarrow> nat \<Rightarrow> cell list \<Rightarrow> int option list" where
  "to_datetime rt line vs = map (pd_to_datetime rt line vs) [0..<length vs]"

definition ns_per_day :: int where
  "ns_per_day = 86400000000000"

text \<open>\<open>.dt.days\<close> of a time difference: whole days, rounded towards minus infinity.\<close>

definition days :: "int \<Rightarrow> int" where
  "days delta = delta div ns_per_day"

record sla_metrics =
  average_days_to_sign :: "rat option"
  max_days_to_sign :: "int option"
  min_days_to_sign :: "int option"
  pending_overdue_count :: "int option"

definition latency_days :: "int option list \<Rightarrow> int option list \<Rightarrow> int list" where
  "latency_days signed_dates sent_dates =
     List.map_filter
       (\<lambda>(sg, st). case sg of None \<Rightarrow> None
                    | Some a \<Rightarrow> (case st of None \<Rightarrow> None | Some b \<Rightarrow> Some (days (a - b))))
       (zip signed_dates sent_dates)"

text \<open>The sent dates of the rows selected by \<open>signed_dates.isna() & sent_dates.notna()\<close>.\<close>

definition pending_sent :: "int option list \<Rightarrow> int option list \<Rightarrow> int list" where
  "pending_sent signed_dates sent_dates =
     List.map_filter (\<lambda>(sg, st). if sg = None then st else None) (zip signed_dates sent_dates)"

text \<open>
  Two subtractions raise \<open>TypeError\<close>: \<open>signed_dates - sent_dates\<close> when one column is
  timezone-aware and the other is not, and \<open>datetime.utcnow() - sent_dates[pending_mask]\<close>
  when the sent dates are timezone-aware.
\<close>

definition compute_sla_metrics :: "runtime \<Rightarrow> table \<Rightarrow> py_error + sla_metrics" where
  "compute_sla_metrics rt df =
     (if SIGNATURE_COLUMN \<notin> set (columns df) \<or> SENT_TO_PHYSICIAN_COLUMN \<notin> set (columns df) then
        Inr \<lparr>average_days_to_sign = None, max_days_to_sign = None, min_days_to_sign = None,
             pending_overdue_count = None\<rparr>
      else
        (let sent_col = column_values df SENT_TO_PHYSICIAN_COLUMN;
             signed_col = column_values df SIGNATURE_COLUMN;
             sent_dates = to_datetime rt 456 sent_col;
             signed_dates = to_datetime rt 457 signed_col
         in if pd_tz_aware rt 457 signed_col \<noteq> pd_tz_aware rt 456 sent_col then Inl TypeError
            else
              (let latency = latency_days signed_dates sent_dates;
                   pending = pending_sent signed_dates sent_dates
               in if pending \<noteq> [] \<and> pd_tz_aware rt 456 sent_col then Inl TypeError
                  else
                    (let overdue =
                           (if pending \<noteq> [] then
                              int (length (filter (\<lambda>st. threshold_days rt < days (utcnow rt - st))
                                             pending))
                            else 0)
                     in if latency = [] then
                          Inr \<lparr>average_days_to_sign = None, max_days_to_sign = None,
                               min_days_to_sign = None, pending_overdue_count = Some overdue\<rparr>
                        else
                          Inr \<lparr>average_days_to_sign = Some (float_round_mean rt latency),
                               max_days_to_sign = Some (Max (set latency)),
                               min_days_to_sign = Some (Min (set latency)),
                               pending_overdue_count = Some overdue\<rparr>))))"

section \<open>Stats aggregator\<close>

text \<open>
  The stats dictionary. The entry \<open>failure_details\<close> is \<open>None\<close> when the dictionary
  has no such key.
\<close>

record file_stats =
  total_rows :: int
  success_rate :: string
  failure_rate :: string
  signed_count :: int
  unsigned_count :: int
  failure_count :: int
  success_count :: int
  unique_failure_reasons :: "string list"
  failure_reason_counts :: "string \<rightharpoonup> nat"
  failure_details :: "(string \<rightharpoonup> string list) option"
  inspected_status_columns :: "string list"
  sla :: sla_metrics

text \<open>\<open>Series.unique()\<close> and \<open>dict.fromkeys\<close>: duplicates removed, first occurrences kept in order.\<close>

definition first_seen :: "'a list \<Rightarrow> 'a list" where
  "first_seen xs = rev (remdups (rev xs))"

text \<open>\<open>Series.value_counts().to_dict()\<close>\<close>

definition value_counts :: "string list \<Rightarrow> (string \<rightharpoonup> nat)" where
  "value_counts xs =
     fold (\<lambda>v m. m(v \<mapsto> (case m v of None \<Rightarrow> 1 | Some n \<Rightarrow> Suc n))) xs Map.empty"

text \<open>\<open>df.loc[failure_mask, column].dropna().astype(str).str.strip()\<close>, empty texts removed.\<close>

definition failing_values :: "table \<Rightarrow> bool list \<Rightarrow> string \<Rightarrow> string list" where
  "failing_values df fmask column =
     filter (\<lambda>s. s \<noteq> []) (map strip (dropna (select_mask fmask (column_values df column))))"

definition collect_remarks :: "table \<Rightarrow> bool list \<Rightarrow> string list list" where
  "collect_remarks df fmask =
     (if ''Remarks'' \<in> set (columns df) then
        (let remarks = failing_values df fmask ''Remarks''
         in if remarks \<noteq> [] then [remarks] else [])
      else [])"

fun collect_columns :: "table \<Rightarrow> bool list \<Rightarrow> pattern \<Rightarrow> string list \<Rightarrow> string list list" where
  "collect_columns df fmask pat [] = []"
| "collect_columns df fmask pat (column # cs) =
     (if column = ''Remarks'' \<or> column \<notin> set (columns df) then collect_columns df fmask pat cs
      else
        (let vals = failing_values df fmask column
         in if vals = [] then collect_columns df fmask pat cs
            else
              (let vals = filter (re_search pat) vals
               in if vals \<noteq> [] then vals # collect_columns df fmask pat cs
                  else collect_columns df fmask pat cs)))"

text \<open>The identifier of a failing row: the \<open>for col in IDENTIFIER_COLUMNS\<close> loop with its \<open>break\<close>.\<close>

fun pick_identifier :: "table \<Rightarrow> cell list \<Rightarrow> string list \<Rightarrow> string \<Rightarrow> string" where
  "pick_identifier df row [] identifier = identifier"
| "pick_identifier df row (col # cs) identifier =
     (if col \<in> set (columns df) then
        (case cell_of (columns df) row col of
           None \<Rightarrow> pick_identifier df row cs identifier
         | Some v \<Rightarrow>
             (let val = strip v in if val \<noteq> [] then val else pick_identifier df row cs identifier))
      else pick_identifier df row cs identifier)"

definition row_identifier :: "table \<Rightarrow> nat \<Rightarrow> cell list \<Rightarrow> string" where
  "row_identifier df idx row =
     pick_identifier df row IDENTIFIER_COLUMNS (''Row '' @ show_nat (idx + 2))"

text \<open>\<open>failure_details[key].append(identifier)\<close> on a \<open>defaultdict(list)\<close>.\<close>

definition append_detail ::
  "(string \<rightharpoonup> string list) \<Rightarrow> string \<Rightarrow> string \<Rightarrow> (string \<rightharpoonup> string list)"
where
  "append_detail d key identifier =
     d(key \<mapsto> (case d key of None \<Rightarrow> [] | Some xs \<Rightarrow> xs) @ [identifier])"

definition stripped_cell :: "table \<Rightarrow> cell list \<Rightarrow> string \<Rightarrow> string" where
  "stripped_cell df row column =
     (case cell_of (columns df) row column of None \<Rightarrow> [] | Some v \<Rightarrow> strip v)"

fun detail_columns ::
  "table \<Rightarrow> pattern \<Rightarrow> cell list \<Rightarrow> string \<Rightarrow> string list \<Rightarrow>
   (string \<rightharpoonup> string list) \<Rightarrow> (string \<rightharpoonup> string list)"
where
  "detail_columns df pat row identifier [] d = d"
| "detail_columns df pat row identifier (column # cs) d =
     (if column = ''Remarks'' \<or> column \<notin> set (columns df) then
        detail_columns df pat row identifier cs d
      else
        (let val = stripped_cell df row column
         in if val \<noteq> [] \<and> re_search pat val then
              detail_columns df pat row identifier cs (append_detail d val identifier)
            else detail_columns df pat row identifier cs d))"

text \<open>The body of the loop \<open>for idx, row in failed_rows.iterrows()\<close>.\<close>

definition detail_row ::
  "table \<Rightarrow> pattern \<Rightarrow> string list \<Rightarrow> nat \<times> cell list \<Rightarrow>
   (string \<rightharpoonup> string list) \<Rightarrow> (string \<rightharpoonup> string list)"
where
  "detail_row df pat inspected_columns ir d =
     (let identifier = row_identifier df (fst ir) (snd ir);
          d = (if ''Remarks'' \<in> set (columns df) then
                 (let remark = stripped_cell df (snd ir) ''Remarks''
                  in if remark \<noteq> [] then append_detail d remark identifier else d)
               else d)
      in detail_columns df pat (snd ir) identifier inspected_columns d)"

definition failed_rows :: "table \<Rightarrow> bool list \<Rightarrow> (nat \<times> cell list) list" where
  "failed_rows df fmask = select_mask fmask (zip [0..<length (rows df)] (rows df))"

text \<open>
  The stats are returned unless \<open>compute_sla_metrics\<close> raises, which is the last call
  made for either dictionary.
\<close>

definition calculate_stats :: "runtime \<Rightarrow> table \<Rightarrow> agency_config \<Rightarrow> py_error + file_stats" where
  "calculate_stats rt df config =
     (let n = int (length (rows df)) in
      if n = 0 then
        (case compute_sla_metrics rt df of
           Inl e \<Rightarrow> Inl e
         | Inr sla_metrics \<Rightarrow>
             Inr \<lparr>total_rows = 0, success_rate = ''0.0%'', failure_rate = ''0.0%'',
                  signed_count = 0, unsigned_count = 0, failure_count = 0, success_count = 0,
                  unique_failure_reasons = [], failure_reason_counts = Map.empty,
                  failure_details = None, inspected_status_columns = [],
                  sla = sla_metrics\<rparr>)
      else
        (let (fmask, inspected_columns, pat) =
               build_failure_mask df (failure_keywords config) (status_columns config);
             n_fail = int (length (filter (\<lambda>b. b) fmask));
             n_ok = n - n_fail;
             n_signed =
               (if SIGNATURE_COLUMN \<in> set (columns df) then
                  int (length (filter (\<lambda>d. d \<noteq> None)
                                 (to_datetime rt 510 (column_values df SIGNATURE_COLUMN))))
                else 0);
             n_unsigned = n - n_signed;
             collected_series =
               (if n_fail \<noteq> 0 then
                  collect_remarks df fmask @ collect_columns df fmask pat inspected_columns
                else []);
             combined = concat collected_series;
             details =
               (if n_fail \<noteq> 0 then
                  fold (detail_row df pat inspected_columns) (failed_rows df fmask) Map.empty
                else Map.empty)
         in case compute_sla_metrics rt df of
              Inl e \<Rightarrow> Inl e
            | Inr sla_metrics \<Rightarrow>
                Inr \<lparr>total_rows = n, success_rate = float_success_rate rt n_ok n,
                     failure_rate = float_failure_rate rt n_ok n,
                     signed_count = n_signed, unsigned_count = n_unsigned,
                     failure_count = n_fail, success_count = n_ok,
                     unique_failure_reasons = first_seen combined,
                     failure_reason_counts = value_counts combined,
                     failure_details = Some details,
                     inspected_status_columns = inspected_columns,
                     sla = sla_metrics\<rparr>))"

section \<open>File analyzer\<close>

definition infer_ehr_from_filename :: "ustring \<Rightarrow> string" where
  "infer_ehr_from_filename file_name =
     (let lowered = unicode_lower file_name in
      if str_find (ustr ''axxess'') lowered \<noteq> None then ''Axxess''
      else if str_find (ustr ''kinnser'') lowered \<noteq> None then ''Kinnser''
      else if str_find (ustr ''athena'') lowered \<noteq> None then ''Athena''
      else ''Unknown'')"

text \<open>
  The analysis dictionary; \<open>reasons\<close> and \<open>reason_counts\<close> are its top-level copies
  \<open>unique_failure_reasons\<close> and \<open>failure_reason_counts\<close> of the stats entries.
\<close>

record file_analysis =
  agency :: string
  ehr :: string
  file_name :: ustring
  template_type :: string
  pair_key :: ustring
  stats :: file_stats
  reasons :: "string list"
  reason_counts :: "string \<rightharpoonup> nat"
  order_ids :: "string set"

definition analyze_file ::
  "runtime \<Rightarrow> table \<Rightarrow> ustring \<Rightarrow> string \<Rightarrow> py_error + file_analysis"
where
  "analyze_file rt df fname ag =
     (case calculate_stats rt df (resolve_agency_config ag) of
        Inl e \<Rightarrow> Inl e
      | Inr st \<Rightarrow>
          Inr \<lparr>agency = ag, ehr = infer_ehr_from_filename fname, file_name = fname,
               template_type = determine_template_type fname, pair_key = derive_pair_key fname,
               stats = st, reasons = unique_failure_reasons st,
               reason_counts = failure_reason_counts st,
               order_ids = extract_order_identifiers df\<rparr>)"

section \<open>Pairing engine\<close>

record combined_summary =
  documents_processed_signed :: int
  documents_processed_unsigned :: int
  failure_rate_unsigned :: "string option"
  failure_rate_signed :: "string option"
  success_rate_unsigned :: "string option"
  success_rate_signed :: "string option"
  pending_signature_orders :: "string list"
  signed_without_unsigned_source :: "string list"
  dominant_failure_reasons :: "string list"

text \<open>\<open>_coerce_order_ids(entry.get("order_ids")) if entry else set()\<close>\<close>

definition side_order_ids :: "file_analysis option \<Rightarrow> string set" where
  "side_order_ids entry = (case entry of None \<Rightarrow> {} | Some e \<Rightarrow> order_ids e)"

definition summarize_pair_entries ::
  "file_analysis option \<Rightarrow> file_analysis option \<Rightarrow> combined_summary"
where
  "summarize_pair_entries signed unsigned =
     (let signed_stats = map_option stats signed;
          unsigned_stats = map_option stats unsigned;
          signed_ids = side_order_ids signed;
          unsigned_ids = side_order_ids unsigned;
          combined_failures =
            (case unsigned of None \<Rightarrow> [] | Some e \<Rightarrow> reasons e) @
            (case signed of None \<Rightarrow> [] | Some e \<Rightarrow> reasons e)
      in \<lparr>documents_processed_signed =
            (case signed_stats of None \<Rightarrow> 0 | Some st \<Rightarrow> total_rows st),
          documents_processed_unsigned =
            (case unsigned_stats of None \<Rightarrow> 0 | Some st \<Rightarrow> total_rows st),
          failure_rate_unsigned = map_option failure_rate unsigned_stats,
          failure_rate_signed = map_option failure_rate signed_stats,
          success_rate_unsigned = map_option success_rate unsigned_stats,
          success_rate_signed = map_option success_rate signed_stats,
          pending_signature_orders = sorted_list_of_set (unsigned_ids - signed_ids),
          signed_without_unsigned_source = sorted_list_of_set (signed_ids - unsigned_ids),
          dominant_failure_reasons = take 5 (first_seen combined_failures)\<rparr>)"

record pair_slots =
  signed_slot :: "file_analysis option"
  unsigned_slot :: "file_analysis option"

record pair_result =
  result_pair_key :: ustring
  result_agency :: string
  signed_entry :: "file_analysis option"
  unsigned_entry :: "file_analysis option"
  summary :: combined_summary

text \<open>The composite key of an entry: \<open>entry.get("pair_key") or derive_pair_key(...)\<close>.\<close>

definition composite_key :: "file_analysis \<Rightarrow> string \<times> ustring" where
  "composite_key entry =
     (agency entry,
      if pair_key entry \<noteq> [] then pair_key entry else derive_pair_key (file_name entry))"

text \<open>The first loop of \<open>build_pair_results\<close>, over the state \<open>(pair_map, ordered_keys)\<close>.\<close>

definition place_entry ::
  "file_analysis \<Rightarrow> ((string \<times> ustring) \<rightharpoonup> pair_slots) \<times> (string \<times> ustring) list \<Rightarrow>
   ((string \<times> ustring) \<rightharpoonup> pair_slots) \<times> (string \<times> ustring) list"
where
  "place_entry entry st =
     (let key = composite_key entry;
          (pair_map, ordered_keys) =
            (if fst st key = None then
               ((fst st)(key \<mapsto> \<lparr>signed_slot = None, unsigned_slot = None\<rparr>), snd st @ [key])
             else st);
          ttype = (if template_type entry \<noteq> [] then template_type entry else ''mixed'');
          slots = (case pair_map key of
                     None \<Rightarrow> \<lparr>signed_slot = None, unsigned_slot = None\<rparr> | Some sl \<Rightarrow> sl)
      in (pair_map(key \<mapsto>
            (if ttype = ''signed'' then slots\<lparr>signed_slot := Some entry\<rparr>
             else slots\<lparr>unsigned_slot := Some entry\<rparr>)),
          ordered_keys))"

text \<open>The second loop: one result per key that holds an entry.\<close>

fun emit_pairs ::
  "((string \<times> ustring) \<rightharpoonup> pair_slots) \<Rightarrow> (string \<times> ustring) list \<Rightarrow> pair_result list"
where
  "emit_pairs pair_map [] = []"
| "emit_pairs pair_map (key # ks) =
     (case pair_map key of
        None \<Rightarrow> emit_pairs pair_map ks
      | Some payload \<Rightarrow>
          (if signed_slot payload = None \<and> unsigned_slot payload = None then
             emit_pairs pair_map ks
           else
             \<lparr>result_pair_key = snd key, result_agency = fst key,
              signed_entry = signed_slot payload, unsigned_entry = unsigned_slot payload,
              summary = summarize_pair_entries (signed_slot payload) (unsigned_slot payload)\<rparr>
             # emit_pairs pair_map ks))"

definition build_pair_results :: "file_analysis list \<Rightarrow> pair_result list" where
  "build_pair_results results =
     (let (pair_map, ordered_keys) = fold place_entry results (Map.empty, [])
      in emit_pairs pair_map ordered_keys)"

section \<open>Reconciliation engine\<close>

record reconciliation_entry =
  recon_agency :: string
  unsigned_total :: int
  signed_total :: int
  recon_pending_signature_orders :: "string list"
  recon_signed_without_unsigned_source :: "string list"

text \<open>
  \<open>grouped\<close> is a \<open>defaultdict\<close> in insertion order: a list of agencies, each with its pair
  (signed set, unsigned set). \<open>grouped_update a f g\<close> is \<open>f\<close> applied to \<open>grouped[a]\<close>,
  the entry being created with two empty sets when \<open>a\<close> is new.
\<close>

fun grouped_update ::
  "string \<Rightarrow> (string set \<times> string set \<Rightarrow> string set \<times> string set) \<Rightarrow>
   (string \<times> string set \<times> string set) list \<Rightarrow> (string \<times> string set \<times> string set) list"
where
  "grouped_update a f [] = [(a, f ({}, {}))]"
| "grouped_update a f ((k, v) # g) =
     (if k = a then (k, f v) # g else (k, v) # grouped_update a f g)"

definition group_entry ::
  "file_analysis \<Rightarrow> (string \<times> string set \<times> string set) list \<Rightarrow>
   (string \<times> string set \<times> string set) list"
where
  "group_entry entry grouped =
     (if template_type entry = ''signed'' then
        grouped_update (agency entry) (\<lambda>(sg, us). (sg \<union> order_ids entry, us)) grouped
      else if template_type entry = ''unsigned'' then
        grouped_update (agency entry) (\<lambda>(sg, us). (sg, us \<union> order_ids entry)) grouped
      else grouped)"

definition reconcile :: "string \<times> string set \<times> string set \<Rightarrow> reconciliation_entry" where
  "reconcile item =
     (case item of (ag, sg, us) \<Rightarrow>
        \<lparr>recon_agency = ag, unsigned_total = int (card us), signed_total = int (card sg),
         recon_pending_signature_orders = sorted_list_of_set (us - sg),
         recon_signed_without_unsigned_source = sorted_list_of_set (sg - us)\<rparr>)"

definition build_reconciliation_summary :: "file_analysis list \<Rightarrow> reconciliation_entry list" where
  "build_reconciliation_summary results =
     (if results = [] then [] else map reconcile (fold group_entry results []))"

section \<open>Notions used in the statements\<close>

text \<open>
  The words of the specification that the statements below are written in: they are
  compared with the functions above and play no part in them.
\<close>

text \<open>
  The identifiers of an agency on one side of a batch: the union of \<open>order_ids\<close> over
  the analyses of that agency with that template type.
\<close>

definition batch_ids :: "string \<Rightarrow> string \<Rightarrow> file_analysis list \<Rightarrow> string set" where
  "batch_ids ttype a results =
     \<Union> (set (map order_ids (filter (\<lambda>e. agency e = a \<and> template_type e = ttype) results)))"

text \<open>The pair of sets that \<open>grouped[a]\<close> reads, two empty sets for a new agency.\<close>

definition slot_of :: "(string \<times> string set \<times> string set) list \<Rightarrow> string \<Rightarrow> string set \<times> string set" where
  "slot_of g a = (case map_of g a of None \<Rightarrow> ({}, {}) | Some v \<Rightarrow> v)"





section \<open>Sample inputs\<close>

text \<open>
  A sample run. The date parser knows three texts: two timezone-naive dates, and a UTC
  time with the suffix \<open>Z\<close>, which makes the column timezone-aware. The floating-point
  results are written with exact rationals, ties to the even neighbour; on the sample
  tables the rates and means are whole numbers or halves, where the two agree.
\<close>

definition sample_timestamp :: "cell \<Rightarrow> int option" where
  "sample_timestamp v =
     (if v = Some ''2024-01-01'' \<or> v = Some ''2024-01-01T00:00:00Z'' then Some 0
      else if v = Some ''2024-01-03'' then Some (2 * ns_per_day)
      else None)"

definition round_half_even :: "rat \<Rightarrow> int" where
  "round_half_even q =
     (let f = \<lfloor>q\<rfloor>; d = q - of_int f
      in if d < 1 / 2 then f else if 1 / 2 < d then f + 1 else if even f then f else f + 1)"

definition sample_round_mean :: "int list \<Rightarrow> rat" where
  "sample_round_mean xs =
     of_int (round_half_even (of_int (sum_list xs) / of_int (int (length xs)) * 100)) / 100"

definition sample_rate_text :: "rat \<Rightarrow> string" where
  "sample_rate_text x =
     (let t = round_half_even (x * 10); a = nat \<bar>t\<bar>
      in (if t < 0 then ''-'' else []) @ show_nat (a div 10) @ ''.'' @ show_nat (a mod 10) @ ''%'')"

definition demo_runtime :: runtime where
  "demo_runtime =
     \<lparr>pd_to_datetime = (\<lambda>line vs i. sample_timestamp (vs ! i)),
      pd_tz_aware = (\<lambda>line vs. Some ''2024-01-01T00:00:00Z'' \<in> set vs),
      utcnow = 10 * ns_per_day, threshold_days = 5,
      float_round_mean = sample_round_mean,
      float_success_rate = (\<lambda>k n. sample_rate_text (of_int k / of_int n * 100)),
      float_failure_rate = (\<lambda>k n. sample_rate_text (100 - of_int k / of_int n * 100))\<rparr>"

definition demo_table :: table where
  "demo_table = \<lparr>columns = [''OrderId'', ''Remarks'', ''Signed By Physician Date''],
     rows = [[Some ''A1'', Some ''Upload failed'', None],
             [Some ''A2'', None, Some ''2024-01-03'']]\<rparr>"

definition demo_sla_table :: table where
  "demo_sla_table = \<lparr>columns = [''OrderId'', ''Sent To Physician Date'', ''Signed By Physician Date''],
     rows = [[Some ''A1'', Some ''2024-01-01'', Some ''2024-01-03''],
             [Some ''A2'', Some ''soon'', Some ''2024-01-03''],
             [Some ''A3'', Some ''2024-01-01'', None]]\<rparr>"

text \<open>One order sent at a UTC time and not signed yet.\<close>

definition demo_utc_table :: table where
  "demo_utc_table = \<lparr>columns = [''OrderId'', ''Sent To Physician Date'', ''Signed By Physician Date''],
     rows = [[Some ''A1'', Some ''2024-01-01T00:00:00Z'', None]]\<rparr>"

definition demo_stats :: file_stats where
  "demo_stats =
     \<lparr>total_rows = 2, success_rate = ''100.0%'', failure_rate = ''0.0%'',
      signed_count = 0, unsigned_count = 2, failure_count = 0, success_count = 2,
      unique_failure_reasons = [], failure_reason_counts = Map.empty,
      failure_details = Some Map.empty, inspected_status_columns = [],
      sla = \<lparr>average_days_to_sign = None, max_days_to_sign = None, min_days_to_sign = None,
             pending_overdue_count = None\<rparr>\<rparr>"

definition demo_analysis :: "string \<Rightarrow> string \<Rightarrow> string \<Rightarrow> string list \<Rightarrow> file_analysis" where
  "demo_analysis ag ttype fname ids =
     \<lparr>agency = ag, ehr = infer_ehr_from_filename (ustr fname), file_name = ustr fname,
      template_type = ttype, pair_key = derive_pair_key (ustr fname), stats = demo_stats,
      reasons = [], reason_counts = Map.empty, order_ids = set ids\<rparr>"

definition demo_batch :: "file_analysis list" where
  "demo_batch =
     [demo_analysis ''X'' ''unsigned'' ''North_Unsigned.csv'' [''1'', ''2''],
      demo_analysis ''X'' ''unsigned'' ''South_Unsigned.csv'' [''2'', ''3''],
      demo_analysis ''Y'' ''mixed'' ''West.csv'' [''9''],
      demo_analysis ''X'' ''signed'' ''North_Signed.csv'' [''2'']]"



section \<open>Properties\<close>

subsection \<open>Substring search and pair keys\<close>

lemma occurs_at_Nil: "occurs_at m [] i \<longleftrightarrow> m = [] \<and> i = 0"
  by (auto simp: occurs_at_def)

lemma occurs_at_Cons_0: "occurs_at m (c # cs) 0 \<longleftrightarrow> take (length m) (c # cs) = m"
proof
  assume "take (length m) (c # cs) = m"
  then have "length (take (length m) (c # cs)) = length m" by simp
  then have "length m \<le> length (c # cs)" by simp
  with \<open>take (length m) (c # cs) = m\<close> show "occurs_at m (c # cs) 0"
    by (simp add: occurs_at_def)
qed (simp add: occurs_at_def)

lemma occurs_at_Cons_Suc: "occurs_at m (c # cs) (Suc j) \<longleftrightarrow> occurs_at m cs j"
  by (simp add: occurs_at_def)

lemma str_find_Some_iff:
  "str_find m s = Some i \<longleftrightarrow> occurs_at m s i \<and> (\<forall>j<i. \<not> occurs_at m s j)"
proof (induction s arbitrary: i)
  case Nil
  show ?case by (auto simp: occurs_at_Nil)
next
  case (Cons c cs)
  show ?case
  proof (cases "take (length m) (c # cs) = m")
    case True
    then have 0: "occurs_at m (c # cs) 0" by (simp add: occurs_at_Cons_0)
    have "str_find m (c # cs) = Some 0" using True by simp
    moreover have "(occurs_at m (c # cs) i \<and> (\<forall>j<i. \<not> occurs_at m (c # cs) j)) \<longleftrightarrow> i = 0"
      using 0 by (cases i) auto
    ultimately show ?thesis by auto
  next
    case False
    then have n0: "\<not> occurs_at m (c # cs) 0" by (simp add: occurs_at_Cons_0)
    have sf: "str_find m (c # cs) = map_option Suc (str_find m cs)" using False by simp
    show ?thesis
    proof (cases i)
      case 0
      then show ?thesis using n0 sf by auto
    next
      case (Suc k)
      have "(\<forall>j<Suc k. \<not> occurs_at m (c # cs) j) \<longleftrightarrow> (\<forall>j<k. \<not> occurs_at m cs j)"
        using n0 by (auto simp: less_Suc_eq_0_disj occurs_at_Cons_Suc)
      then show ?thesis using Suc sf Cons.IH [of k]
        by (auto simp: occurs_at_Cons_Suc)
    qed
  qed
qed

lemma str_find_None_iff: "str_find m s = None \<longleftrightarrow> (\<forall>i. \<not> occurs_at m s i)"
proof
  assume n: "str_find m s = None"
  show "\<forall>i. \<not> occurs_at m s i"
  proof (rule allI, rule notI)
    fix i assume "occurs_at m s i"
    then have "\<exists>k. occurs_at m s k \<and> (\<forall>j<k. \<not> occurs_at m s j)"
      by (metis exists_least_iff)
    then show False using n by (simp add: str_find_Some_iff [symmetric])
  qed
next
  assume "\<forall>i. \<not> occurs_at m s i"
  then show "str_find m s = None"
    by (cases "str_find m s") (auto simp: str_find_Some_iff)
qed

lemma scan_markers_none:
  "\<forall>m\<in>set ms. str_find m low = None \<Longrightarrow> scan_markers base low ms = base"
  by (induction ms) auto

lemma scan_markers_first:
  "\<forall>m'\<in>set pre. str_find m' low = None \<Longrightarrow> str_find m low = Some i \<Longrightarrow>
   scan_markers base low (pre @ m # post) =
     (let r = rstrip (ustr ''-_ '') (take i base) in if r = [] then base else r)"
  by (induction pre) auto

text \<open>
  What \<open>derive_pair_key\<close> does with a name: without a marker in the lower-cased base
  name it returns the base name; otherwise it cuts the base name at the index where the
  first marker of the list that occurs in the lower-cased base name occurs there first,
  and removes trailing separators. The index is one of the lower-cased name.
\<close>

lemma derive_pair_key_cut:
  "((\<forall>m\<in>set markers. \<forall>i. \<not> occurs_at m (unicode_lower (fst (splitext f))) i) \<longrightarrow>
      derive_pair_key f = fst (splitext f)) \<and>
   (\<forall>pre m post i.
      markers = pre @ m # post \<and>
      (\<forall>m'\<in>set pre. \<forall>j. \<not> occurs_at m' (unicode_lower (fst (splitext f))) j) \<and>
      occurs_at m (unicode_lower (fst (splitext f))) i \<and>
      (\<forall>j<i. \<not> occurs_at m (unicode_lower (fst (splitext f))) j) \<longrightarrow>
      derive_pair_key f =
        (if rstrip (ustr ''-_ '') (take i (fst (splitext f))) = [] then fst (splitext f)
         else rstrip (ustr ''-_ '') (take i (fst (splitext f)))))"
proof (intro conjI allI impI)
  assume "\<forall>m\<in>set markers. \<forall>i. \<not> occurs_at m (unicode_lower (fst (splitext f))) i"
  then have "\<forall>m\<in>set markers. str_find m (unicode_lower (fst (splitext f))) = None"
    by (simp add: str_find_None_iff)
  then show "derive_pair_key f = fst (splitext f)"
    unfolding derive_pair_key_def Let_def by (rule scan_markers_none)
next
  fix pre m post i
  let ?low = "unicode_lower (fst (splitext f))"
  assume h: "markers = pre @ m # post \<and>
      (\<forall>m'\<in>set pre. \<forall>j. \<not> occurs_at m' ?low j) \<and>
      occurs_at m ?low i \<and> (\<forall>j<i. \<not> occurs_at m ?low j)"
  then have a: "\<forall>m'\<in>set pre. str_find m' ?low = None"
    by (simp add: str_find_None_iff)
  from h have b: "str_find m ?low = Some i" by (simp add: str_find_Some_iff)
  from h have c: "markers = pre @ m # post" by simp
  show "derive_pair_key f =
        (if rstrip (ustr ''-_ '') (take i (fst (splitext f))) = [] then fst (splitext f)
         else rstrip (ustr ''-_ '') (take i (fst (splitext f))))"
    unfolding derive_pair_key_def Let_def c
    using scan_markers_first [OF a b, of "fst (splitext f)" post] by (simp add: Let_def)
qed

text \<open>
  C8. The two file names of the specification give the pair key \<open>Agency\<close>. The name
  \<open>U+0130 U+0130 _Signed.csv\<close> does not give the part before its marker: the marker
  stands at index 2 of the base name and at index 4 of the lower-cased base name, which
  is two code points longer, and the base name is cut at index 4, after \<open>_S\<close>.
\<close>

theorem derive_pair_key_cuts_at_lowered_index:
  "derive_pair_key ([304, 304] @ ustr ''_Signed.csv'') = [304, 304] @ ustr ''_S'' \<and>
   fst (splitext ([304, 304] @ ustr ''_Signed.csv'')) = [304, 304] @ ustr ''_Signed'' \<and>
   str_find (ustr ''_signed'') (unicode_lower ([304, 304] @ ustr ''_Signed'')) = Some 4 \<and>
   str_find (ustr ''_Signed'') ([304, 304] @ ustr ''_Signed'') = Some 2 \<and>
   derive_pair_key (ustr ''Agency_SignedOrderTemplate.csv'') = ustr ''Agency'' \<and>
   derive_pair_key (ustr ''Agency_Unsigned.xlsx'') = ustr ''Agency''"
  by code_simp

subsection \<open>Counts\<close>

lemma length_column_values [simp]: "length (column_values df c) = length (rows df)"
  by (simp add: column_values_def)

lemma length_row_text [simp]: "length (row_text df) = length (rows df)"
  by (simp add: row_text_def)

lemma length_scan_status_columns:
  "length m = length (rows df) \<Longrightarrow>
   length (fst (scan_status_columns df pat cs (m, ins))) = length (rows df)"
  by (induction cs arbitrary: m ins) auto

lemma length_build_failure_mask:
  "length (fst (build_failure_mask df kws cs)) = (if df_empty df then 0 else length (rows df))"
proof (cases "df_empty df")
  case True
  then show ?thesis by (simp add: build_failure_mask_def)
next
  case False
  obtain m ins where sc:
    "scan_status_columns df (compile_failure_pattern (sorted_list_of_set (set kws))) cs
       (replicate (length (rows df)) False, []) = (m, ins)"
    by (cases "scan_status_columns df (compile_failure_pattern (sorted_list_of_set (set kws))) cs
       (replicate (length (rows df)) False, [])")
  have "length m = length (rows df)"
    using length_scan_status_columns [of "replicate (length (rows df)) False" df
        "compile_failure_pattern (sorted_list_of_set (set kws))" cs "[]"] sc
    by simp
  then show ?thesis using False sc by (simp add: build_failure_mask_def Let_def)
qed

lemma failure_count_bound:
  "length (filter (\<lambda>b. b) (fst (build_failure_mask df kws cs))) \<le> length (rows df)"
proof -
  have "length (filter (\<lambda>b. b) (fst (build_failure_mask df kws cs)))
          \<le> length (fst (build_failure_mask df kws cs))"
    by (rule length_filter_le)
  also have "\<dots> \<le> length (rows df)" by (simp add: length_build_failure_mask)
  finally show ?thesis .
qed

lemma length_to_datetime [simp]: "length (to_datetime rt line vs) = length vs"
  by (simp add: to_datetime_def)

lemma signed_count_bound:
  "length (filter (\<lambda>d. d \<noteq> None) (to_datetime rt line (column_values df c))) \<le> length (rows df)"
proof -
  have "length (filter (\<lambda>d. d \<noteq> None) (to_datetime rt line (column_values df c)))
          \<le> length (to_datetime rt line (column_values df c))"
    by (rule length_filter_le)
  then show ?thesis by simp
qed

text \<open>What \<open>calculate_stats\<close> returns for a table with rows, entry by entry.\<close>

lemma calculate_stats_rows:
  assumes "rows df \<noteq> []"
    and "build_failure_mask df (failure_keywords config) (status_columns config) = (m, ins, pat)"
  shows "calculate_stats rt df config =
     (case compute_sla_metrics rt df of
        Inl e \<Rightarrow> Inl e
      | Inr sla_metrics \<Rightarrow>
          Inr \<lparr>total_rows = int (length (rows df)),
               success_rate = float_success_rate rt
                 (int (length (rows df)) - int (length (filter (\<lambda>b. b) m))) (int (length (rows df))),
               failure_rate = float_failure_rate rt
                 (int (length (rows df)) - int (length (filter (\<lambda>b. b) m))) (int (length (rows df))),
               signed_count =
                 (if SIGNATURE_COLUMN \<in> set (columns df) then
                    int (length (filter (\<lambda>d. d \<noteq> None)
                                   (to_datetime rt 510 (column_values df SIGNATURE_COLUMN))))
                  else 0),
               unsigned_count = int (length (rows df)) -
                 (if SIGNATURE_COLUMN \<in> set (columns df) then
                    int (length (filter (\<lambda>d. d \<noteq> None)
                                   (to_datetime rt 510 (column_values df SIGNATURE_COLUMN))))
                  else 0),
               failure_count = int (length (filter (\<lambda>b. b) m)),
               success_count = int (length (rows df)) - int (length (filter (\<lambda>b. b) m)),
               unique_failure_reasons =
                 first_seen (concat (if filter (\<lambda>b. b) m \<noteq> []
                    then collect_remarks df m @ collect_columns df m pat ins else [])),
               failure_reason_counts =
                 value_counts (concat (if filter (\<lambda>b. b) m \<noteq> []
                    then collect_remarks df m @ collect_columns df m pat ins else [])),
               failure_details =
                 Some (if filter (\<lambda>b. b) m \<noteq> []
                    then fold (detail_row df pat ins) (failed_rows df m) Map.empty
                    else Map.empty),
               inspected_status_columns = ins,
               sla = sla_metrics\<rparr>)"
  using assms by (simp add: calculate_stats_def Let_def)

text \<open>
  C1. For a table with at least one row, \<open>calculate_stats\<close> either raises what
  \<open>compute_sla_metrics\<close> raises or returns stats with
  \<open>success_count + failure_count = total_rows\<close> and
  \<open>signed_count + unsigned_count = total_rows\<close>, where none of the four counts is
  negative and \<open>total_rows\<close> is the number of rows.
\<close>

theorem calculate_stats_count_invariants:
  assumes "rows df \<noteq> []"
  shows "case calculate_stats rt df config of
           Inl e \<Rightarrow> compute_sla_metrics rt df = Inl e
         | Inr s \<Rightarrow>
             success_count s + failure_count s = total_rows s \<and>
             signed_count s + unsigned_count s = total_rows s \<and>
             0 \<le> success_count s \<and> 0 \<le> failure_count s \<and>
             0 \<le> signed_count s \<and> 0 \<le> unsigned_count s \<and>
             total_rows s = int (length (rows df))"
proof -
  obtain m ins pat where bm:
    "build_failure_mask df (failure_keywords config) (status_columns config) = (m, ins, pat)"
    by (cases "build_failure_mask df (failure_keywords config) (status_columns config)")
  have f: "int (length (filter (\<lambda>b. b) m)) \<le> int (length (rows df))"
    using failure_count_bound [of df "failure_keywords config" "status_columns config"]
    by (simp add: bm)
  have s: "int (length (filter (\<lambda>d. d \<noteq> None)
                  (to_datetime rt 510 (column_values df SIGNATURE_COLUMN)))) \<le> int (length (rows df))"
    using signed_count_bound [of rt 510 df SIGNATURE_COLUMN] by simp
  show ?thesis
    unfolding calculate_stats_rows [OF assms bm]
    using f s by (cases "compute_sla_metrics rt df") simp_all
qed

theorem calculate_stats_count_invariants_witness:
  "rows demo_table \<noteq> [] \<and>
   (\<exists>s. calculate_stats demo_runtime demo_table (resolve_agency_config ''axxess'') = Inr s \<and>
        success_count s = 1 \<and> failure_count s = 1 \<and> signed_count s = 1 \<and>
        unsigned_count s = 1 \<and> total_rows s = 2)"
proof -
  let ?R = "calculate_stats demo_runtime demo_table (resolve_agency_config ''axxess'')"
  have r: "rows demo_table \<noteq> []" by (simp add: demo_table_def)
  have ok: "\<not> isl ?R" by code_simp
  then obtain s where s: "?R = Inr s" by (cases ?R) simp_all
  have f: "failure_count (projr ?R) = 1" by code_simp
  have g: "signed_count (projr ?R) = 1" by code_simp
  have l: "int (length (rows demo_table)) = 2" by (simp add: demo_table_def)
  from calculate_stats_count_invariants [OF r, of demo_runtime "resolve_agency_config ''axxess''"]
  have "success_count s + failure_count s = total_rows s \<and>
        signed_count s + unsigned_count s = total_rows s \<and>
        total_rows s = int (length (rows demo_table))"
    unfolding s by simp
  with f g l s r show ?thesis by simp
qed

subsection \<open>Keyword order\<close>

text \<open>
  C10. Two keyword lists with the same set of keywords give the same failure mask, the
  same inspected columns and the same pattern, whatever the order and the repetitions
  in the lists: the pattern is compiled from the sorted keywords without duplicates.
\<close>

theorem build_failure_mask_keyword_set:
  assumes "set keywords1 = set keywords2"
  shows "build_failure_mask df keywords1 status_cols = build_failure_mask df keywords2 status_cols \<and>
         sorted (snd (snd (build_failure_mask df keywords1 status_cols))) \<and>
         distinct (snd (snd (build_failure_mask df keywords1 status_cols))) \<and>
         set (snd (snd (build_failure_mask df keywords1 status_cols))) = set keywords1"
proof -
  have eq: "build_failure_mask df keywords1 status_cols = build_failure_mask df keywords2 status_cols"
    using assms by (simp add: build_failure_mask_def)
  have pat: "snd (snd (build_failure_mask df keywords1 status_cols))
               = sorted_list_of_set (set keywords1)"
    by (simp add: build_failure_mask_def compile_failure_pattern_def Let_def split: prod.splits)
  show ?thesis using eq unfolding pat by simp
qed

theorem build_failure_mask_keyword_set_witness:
  "set [''failed'', ''error'', ''failed''] = set [''error'', ''failed''] \<and>
   build_failure_mask demo_table [''failed'', ''error'', ''failed''] DEFAULT_STATUS_COLUMNS
     = build_failure_mask demo_table [''error'', ''failed''] DEFAULT_STATUS_COLUMNS \<and>
   fst (build_failure_mask demo_table [''error'', ''failed''] DEFAULT_STATUS_COLUMNS) = [True, False]"
proof -
  have s: "set [''failed'', ''error'', ''failed''] = set [''error'', ''failed'']" by auto
  have m: "fst (build_failure_mask demo_table [''error'', ''failed''] DEFAULT_STATUS_COLUMNS)
             = [True, False]"
    by code_simp
  from build_failure_mask_keyword_set [OF s, of demo_table DEFAULT_STATUS_COLUMNS] s m
  show ?thesis by blast
qed

subsection \<open>SLA metrics\<close>

text \<open>
  C4. A table with both date columns, one order sent at a UTC time and not signed yet:
  \<open>compute_sla_metrics\<close> raises \<open>TypeError\<close> and reports no pending-overdue count. With
  timezone-naive dates it returns the four fields, the row with an unparsable sent date
  dropped from the latency.
\<close>

theorem compute_sla_metrics_raises_on_utc_dates:
  "compute_sla_metrics demo_runtime demo_utc_table = Inl TypeError \<and>
   SIGNATURE_COLUMN \<in> set (columns demo_utc_table) \<and>
   SENT_TO_PHYSICIAN_COLUMN \<in> set (columns demo_utc_table) \<and>
   compute_sla_metrics demo_runtime demo_sla_table =
     Inr \<lparr>average_days_to_sign = Some 2, max_days_to_sign = Some 2, min_days_to_sign = Some 2,
          pending_overdue_count = Some 1\<rparr>"
  by code_simp

theorem compute_sla_metrics_raises_on_utc_dates_witness:
  "isl (compute_sla_metrics demo_runtime demo_utc_table) \<and>
   \<not> isl (compute_sla_metrics demo_runtime demo_sla_table)"
  using compute_sla_metrics_raises_on_utc_dates by simp

subsection \<open>Repeated runs\<close>

lemma to_datetime_same_parser:
  "pd_to_datetime rt2 = pd_to_datetime rt1 \<Longrightarrow> to_datetime rt2 line vs = to_datetime rt1 line vs"
  by (simp add: to_datetime_def)

text \<open>Two runs that differ in the clock reading only.\<close>

lemma compute_sla_metrics_clock:
  "isl (compute_sla_metrics (rt\<lparr>utcnow := t\<rparr>) df) = isl (compute_sla_metrics rt df) \<and>
   (\<forall>m1 m2. compute_sla_metrics rt df = Inr m1 \<and> compute_sla_metrics (rt\<lparr>utcnow := t\<rparr>) df = Inr m2
       \<longrightarrow> m1 = m2\<lparr>pending_overdue_count := pending_overdue_count m1\<rparr>)"
proof -
  have td: "to_datetime (rt\<lparr>utcnow := t\<rparr>) line vs = to_datetime rt line vs" for line vs
    by (rule to_datetime_same_parser) simp
  show ?thesis
    unfolding compute_sla_metrics_def Let_def td by auto
qed

lemma compute_sla_metrics_no_pending:
  assumes "SIGNATURE_COLUMN \<notin> set (columns df) \<or> SENT_TO_PHYSICIAN_COLUMN \<notin> set (columns df) \<or>
           pending_sent (to_datetime rt 457 (column_values df SIGNATURE_COLUMN))
                        (to_datetime rt 456 (column_values df SENT_TO_PHYSICIAN_COLUMN)) = []"
  shows "compute_sla_metrics (rt\<lparr>utcnow := t\<rparr>) df = compute_sla_metrics rt df"
proof -
  have td: "to_datetime (rt\<lparr>utcnow := t\<rparr>) line vs = to_datetime rt line vs" for line vs
    by (rule to_datetime_same_parser) simp
  show ?thesis
    using assms unfolding compute_sla_metrics_def Let_def td by auto
qed

lemma compute_sla_metrics_no_signature_column:
  "SIGNATURE_COLUMN \<notin> set (columns df) \<Longrightarrow>
   compute_sla_metrics rt df =
     Inr \<lparr>average_days_to_sign = None, max_days_to_sign = None, min_days_to_sign = None,
          pending_overdue_count = None\<rparr>"
  by (simp add: compute_sla_metrics_def)

text \<open>The stats as a function of what \<open>compute_sla_metrics\<close> gives, for any table.\<close>

lemma calculate_stats_no_rows:
  "rows df = [] \<Longrightarrow>
   calculate_stats rt df config =
     (case compute_sla_metrics rt df of
        Inl e \<Rightarrow> Inl e
      | Inr sla_metrics \<Rightarrow>
          Inr \<lparr>total_rows = 0, success_rate = ''0.0%'', failure_rate = ''0.0%'',
               signed_count = 0, unsigned_count = 0, failure_count = 0, success_count = 0,
               unique_failure_reasons = [], failure_reason_counts = Map.empty,
               failure_details = None, inspected_status_columns = [],
               sla = sla_metrics\<rparr>)"
  by (simp add: calculate_stats_def)

lemma calculate_stats_isl:
  "isl (calculate_stats rt df config) = isl (compute_sla_metrics rt df)"
proof (cases "rows df = []")
  case True
  then show ?thesis
    by (cases "compute_sla_metrics rt df") (simp_all add: calculate_stats_no_rows)
next
  case False
  obtain m ins pat where bm:
    "build_failure_mask df (failure_keywords config) (status_columns config) = (m, ins, pat)"
    by (cases "build_failure_mask df (failure_keywords config) (status_columns config)")
  show ?thesis
    unfolding calculate_stats_rows [OF False bm]
    by (cases "compute_sla_metrics rt df") simp_all
qed

lemma calculate_stats_sla:
  "calculate_stats rt df config = Inr s \<Longrightarrow> compute_sla_metrics rt df = Inr (sla s)"
proof (cases "rows df = []")
  case True
  assume "calculate_stats rt df config = Inr s"
  then show ?thesis using True
    by (cases "compute_sla_metrics rt df") (auto simp: calculate_stats_no_rows)
next
  case False
  obtain m ins pat where bm:
    "build_failure_mask df (failure_keywords config) (status_columns config) = (m, ins, pat)"
    by (cases "build_failure_mask df (failure_keywords config) (status_columns config)")
  assume "calculate_stats rt df config = Inr s"
  then show ?thesis unfolding calculate_stats_rows [OF False bm]
    by (cases "compute_sla_metrics rt df") auto
qed

text \<open>
  The part of the stats that rests on the dates: the two signature counts and the SLA
  metrics. Two runs with the same floating-point arithmetic agree outside this part.
\<close>

lemma calculate_stats_date_free:
  assumes "float_success_rate rt2 = float_success_rate rt1"
    and "float_failure_rate rt2 = float_failure_rate rt1"
    and "calculate_stats rt1 df config = Inr s1"
    and "calculate_stats rt2 df config = Inr s2"
  shows "s2 = s1\<lparr>signed_count := signed_count s2, unsigned_count := unsigned_count s2,
                 sla := sla s2\<rparr>"
proof (cases "rows df = []")
  case True
  then show ?thesis using assms(3,4)
    by (cases "compute_sla_metrics rt1 df"; cases "compute_sla_metrics rt2 df")
       (auto simp: calculate_stats_no_rows)
next
  case False
  obtain m ins pat where bm:
    "build_failure_mask df (failure_keywords config) (status_columns config) = (m, ins, pat)"
    by (cases "build_failure_mask df (failure_keywords config) (status_columns config)")
  show ?thesis
    using assms(3,4) unfolding calculate_stats_rows [OF False bm] assms(1,2)
    by (cases "compute_sla_metrics rt1 df"; cases "compute_sla_metrics rt2 df") auto
qed

lemma calculate_stats_signed_count:
  assumes "calculate_stats rt df config = Inr s"
  shows "signed_count s =
           (if rows df \<noteq> [] \<and> SIGNATURE_COLUMN \<in> set (columns df) then
              int (length (filter (\<lambda>d. d \<noteq> None)
                             (to_datetime rt 510 (column_values df SIGNATURE_COLUMN))))
            else 0) \<and>
         unsigned_count s = int (length (rows df)) - signed_count s"
proof (cases "rows df = []")
  case True
  then show ?thesis using assms
    by (cases "compute_sla_metrics rt df") (auto simp: calculate_stats_no_rows)
next
  case False
  obtain m ins pat where bm:
    "build_failure_mask df (failure_keywords config) (status_columns config) = (m, ins, pat)"
    by (cases "build_failure_mask df (failure_keywords config) (status_columns config)")
  show ?thesis
    using assms False unfolding calculate_stats_rows [OF False bm]
    by (cases "compute_sla_metrics rt df") auto
qed

lemma calculate_stats_Inl:
  "calculate_stats rt df config = Inl e \<longleftrightarrow> compute_sla_metrics rt df = Inl e"
proof (cases "rows df = []")
  case True
  then show ?thesis
    by (cases "compute_sla_metrics rt df") (auto simp: calculate_stats_no_rows)
next
  case False
  obtain m ins pat where bm:
    "build_failure_mask df (failure_keywords config) (status_columns config) = (m, ins, pat)"
    by (cases "build_failure_mask df (failure_keywords config) (status_columns config)")
  show ?thesis
    unfolding calculate_stats_rows [OF False bm]
    by (cases "compute_sla_metrics rt df") auto
qed

lemma calculate_stats_same_dates:
  assumes fs: "float_success_rate rt2 = float_success_rate rt1"
    and ff: "float_failure_rate rt2 = float_failure_rate rt1"
    and sc: "SIGNATURE_COLUMN \<in> set (columns df) \<longrightarrow>
             to_datetime rt2 510 (column_values df SIGNATURE_COLUMN)
               = to_datetime rt1 510 (column_values df SIGNATURE_COLUMN)"
    and sl: "compute_sla_metrics rt2 df = compute_sla_metrics rt1 df"
  shows "calculate_stats rt2 df config = calculate_stats rt1 df config"
proof (cases "calculate_stats rt1 df config")
  case (Inl e)
  then have "compute_sla_metrics rt1 df = Inl e" by (simp add: calculate_stats_Inl)
  then have "compute_sla_metrics rt2 df = Inl e" by (simp add: sl)
  then have "calculate_stats rt2 df config = Inl e" by (simp add: calculate_stats_Inl)
  with Inl show ?thesis by simp
next
  case (Inr s1)
  have "\<not> isl (calculate_stats rt2 df config)"
    using Inr calculate_stats_isl [of rt1 df config] calculate_stats_isl [of rt2 df config] sl
    by simp
  then obtain s2 where s2: "calculate_stats rt2 df config = Inr s2"
    by (cases "calculate_stats rt2 df config") simp_all
  have a: "s2 = s1\<lparr>signed_count := signed_count s2, unsigned_count := unsigned_count s2,
                   sla := sla s2\<rparr>"
    by (rule calculate_stats_date_free [OF fs ff Inr s2])
  have b: "signed_count s2 = signed_count s1 \<and> unsigned_count s2 = unsigned_count s1"
    using calculate_stats_signed_count [OF Inr] calculate_stats_signed_count [OF s2] sc
    by auto
  have c: "sla s2 = sla s1"
    using calculate_stats_sla [OF Inr] calculate_stats_sla [OF s2] sl by simp
  from a b c have "s2 = s1" by simp
  then show ?thesis using Inr s2 by simp
qed

text \<open>
  C9, as amended. Two runs over the same table with the same agency configuration: a
  run raises or returns stats, and
  \<^item> whatever \<open>pd.to_datetime\<close> and the clock give in the second run, two returned stats
    agree in the row count, the success and failure counts and rates, the three reason
    collections and the inspected columns;
  \<^item> the two runs are equal when the table has no signed-date column;
  \<^item> when the second run differs in the clock reading only, it raises exactly when the
    first raises, two returned stats differ at most in the pending-overdue count of the
    SLA metrics, and the two runs are equal when a date column is missing or no row has
    a sent date without a signed date.
\<close>

theorem calculate_stats_repeated_runs:
  "(\<forall>s1 s2. calculate_stats rt df config = Inr s1 \<and>
            calculate_stats (rt\<lparr>pd_to_datetime := p, pd_tz_aware := z, utcnow := t\<rparr>) df config
              = Inr s2 \<longrightarrow>
      total_rows s2 = total_rows s1 \<and>
      success_count s2 = success_count s1 \<and> failure_count s2 = failure_count s1 \<and>
      success_rate s2 = success_rate s1 \<and> failure_rate s2 = failure_rate s1 \<and>
      unique_failure_reasons s2 = unique_failure_reasons s1 \<and>
      failure_reason_counts s2 = failure_reason_counts s1 \<and>
      failure_details s2 = failure_details s1 \<and>
      inspected_status_columns s2 = inspected_status_columns s1) \<and>
   (SIGNATURE_COLUMN \<notin> set (columns df) \<longrightarrow>
      calculate_stats (rt\<lparr>pd_to_datetime := p, pd_tz_aware := z, utcnow := t\<rparr>) df config
        = calculate_stats rt df config) \<and>
   isl (calculate_stats (rt\<lparr>utcnow := t\<rparr>) df config) = isl (calculate_stats rt df config) \<and>
   (\<forall>s1 s2. calculate_stats rt df config = Inr s1 \<and>
            calculate_stats (rt\<lparr>utcnow := t\<rparr>) df config = Inr s2 \<longrightarrow>
      s1 = s2\<lparr>sla := (sla s2)\<lparr>pending_overdue_count := pending_overdue_count (sla s1)\<rparr>\<rparr>) \<and>
   (SIGNATURE_COLUMN \<notin> set (columns df) \<or> SENT_TO_PHYSICIAN_COLUMN \<notin> set (columns df) \<or>
    pending_sent (to_datetime rt 457 (column_values df SIGNATURE_COLUMN))
                 (to_datetime rt 456 (column_values df SENT_TO_PHYSICIAN_COLUMN)) = []
    \<longrightarrow> calculate_stats (rt\<lparr>utcnow := t\<rparr>) df config = calculate_stats rt df config)"
proof (intro conjI allI impI)
  fix s1 s2
  let ?rt2 = "rt\<lparr>pd_to_datetime := p, pd_tz_aware := z, utcnow := t\<rparr>"
  assume h: "calculate_stats rt df config = Inr s1 \<and> calculate_stats ?rt2 df config = Inr s2"
  have a: "s2 = s1\<lparr>signed_count := signed_count s2, unsigned_count := unsigned_count s2,
                   sla := sla s2\<rparr>"
    by (rule calculate_stats_date_free [of ?rt2 rt, OF _ _ conjunct1 [OF h] conjunct2 [OF h]])
       simp_all
  show "total_rows s2 = total_rows s1" by (subst a) simp
  show "success_count s2 = success_count s1" by (subst a) simp
  show "failure_count s2 = failure_count s1" by (subst a) simp
  show "success_rate s2 = success_rate s1" by (subst a) simp
  show "failure_rate s2 = failure_rate s1" by (subst a) simp
  show "unique_failure_reasons s2 = unique_failure_reasons s1" by (subst a) simp
  show "failure_reason_counts s2 = failure_reason_counts s1" by (subst a) simp
  show "failure_details s2 = failure_details s1" by (subst a) simp
  show "inspected_status_columns s2 = inspected_status_columns s1" by (subst a) simp
next
  let ?rt2 = "rt\<lparr>pd_to_datetime := p, pd_tz_aware := z, utcnow := t\<rparr>"
  assume n: "SIGNATURE_COLUMN \<notin> set (columns df)"
  show "calculate_stats ?rt2 df config = calculate_stats rt df config"
    by (rule calculate_stats_same_dates)
       (simp_all add: n compute_sla_metrics_no_signature_column)
next
  show "isl (calculate_stats (rt\<lparr>utcnow := t\<rparr>) df config) = isl (calculate_stats rt df config)"
    using compute_sla_metrics_clock [where rt = rt and t = t and df = df] by (simp add: calculate_stats_isl)
next
  fix s1 s2
  let ?rt2 = "rt\<lparr>utcnow := t\<rparr>"
  assume h: "calculate_stats rt df config = Inr s1 \<and> calculate_stats ?rt2 df config = Inr s2"
  note h1 = conjunct1 [OF h] and h2 = conjunct2 [OF h]
  have td: "to_datetime ?rt2 line vs = to_datetime rt line vs" for line vs
    by (rule to_datetime_same_parser) simp
  have a: "s2 = s1\<lparr>signed_count := signed_count s2, unsigned_count := unsigned_count s2,
                   sla := sla s2\<rparr>"
    by (rule calculate_stats_date_free [of ?rt2 rt, OF _ _ h1 h2]) simp_all
  have b: "signed_count s2 = signed_count s1 \<and> unsigned_count s2 = unsigned_count s1"
    using calculate_stats_signed_count [OF h1] calculate_stats_signed_count [OF h2]
    by (simp add: td)
  have c: "sla s1 = (sla s2)\<lparr>pending_overdue_count := pending_overdue_count (sla s1)\<rparr>"
    using compute_sla_metrics_clock [where rt = rt and t = t and df = df]
      calculate_stats_sla [OF h1] calculate_stats_sla [OF h2]
    by blast
  have "s1 = s2\<lparr>sla := sla s1\<rparr>" using a b by (cases s1, cases s2) simp
  then show "s1 = s2\<lparr>sla := (sla s2)\<lparr>pending_overdue_count := pending_overdue_count (sla s1)\<rparr>\<rparr>"
    using c by simp
next
  let ?rt2 = "rt\<lparr>utcnow := t\<rparr>"
  assume n: "SIGNATURE_COLUMN \<notin> set (columns df) \<or> SENT_TO_PHYSICIAN_COLUMN \<notin> set (columns df) \<or>
    pending_sent (to_datetime rt 457 (column_values df SIGNATURE_COLUMN))
                 (to_datetime rt 456 (column_values df SENT_TO_PHYSICIAN_COLUMN)) = []"
  have td: "to_datetime ?rt2 line vs = to_datetime rt line vs" for line vs
    by (rule to_datetime_same_parser) simp
  show "calculate_stats ?rt2 df config = calculate_stats rt df config"
    by (rule calculate_stats_same_dates)
       (simp_all add: td compute_sla_metrics_no_pending [OF n])
qed

text \<open>
  The same table analysed at day 3 and at day 10 of the clock: the row sent at day 0
  and never signed is overdue in the second run only.
\<close>

theorem calculate_stats_clock_counterexample:
  "calculate_stats (demo_runtime\<lparr>utcnow := 3 * ns_per_day\<rparr>) demo_sla_table
      (resolve_agency_config ''axxess'')
   \<noteq> calculate_stats (demo_runtime\<lparr>utcnow := 10 * ns_per_day\<rparr>) demo_sla_table
      (resolve_agency_config ''axxess'')"
proof -
  have a: "map_sum id (\<lambda>s. pending_overdue_count (sla s))
             (calculate_stats (demo_runtime\<lparr>utcnow := 3 * ns_per_day\<rparr>) demo_sla_table
                (resolve_agency_config ''axxess'')) = Inr (Some 0)"
    by code_simp
  have b: "map_sum id (\<lambda>s. pending_overdue_count (sla s))
             (calculate_stats (demo_runtime\<lparr>utcnow := 10 * ns_per_day\<rparr>) demo_sla_table
                (resolve_agency_config ''axxess'')) = Inr (Some 1)"
    by code_simp
  show ?thesis
  proof
    assume "calculate_stats (demo_runtime\<lparr>utcnow := 3 * ns_per_day\<rparr>) demo_sla_table
              (resolve_agency_config ''axxess'')
            = calculate_stats (demo_runtime\<lparr>utcnow := 10 * ns_per_day\<rparr>) demo_sla_table
              (resolve_agency_config ''axxess'')"
    with a b have "(Inr (Some 0) :: py_error + int option) = Inr (Some 1)" by simp
    then show False by simp
  qed
qed

theorem calculate_stats_repeated_runs_witness:
  "SENT_TO_PHYSICIAN_COLUMN \<notin> set (columns demo_table) \<and>
   calculate_stats (demo_runtime\<lparr>utcnow := 3 * ns_per_day\<rparr>) demo_table
       (resolve_agency_config ''axxess'')
     = calculate_stats demo_runtime demo_table (resolve_agency_config ''axxess'') \<and>
   (\<exists>s1 s2. calculate_stats demo_runtime demo_sla_table (resolve_agency_config ''axxess'') = Inr s1 \<and>
      calculate_stats (demo_runtime\<lparr>utcnow := 3 * ns_per_day\<rparr>) demo_sla_table
        (resolve_agency_config ''axxess'') = Inr s2 \<and>
      s1 = s2\<lparr>sla := (sla s2)\<lparr>pending_overdue_count := Some 1\<rparr>\<rparr> \<and>
      failure_count s2 = failure_count s1)"
proof -
  let ?cfg = "resolve_agency_config ''axxess''"
  let ?rt3 = "demo_runtime\<lparr>utcnow := 3 * ns_per_day\<rparr>"
  note inst = calculate_stats_repeated_runs
  have n: "SENT_TO_PHYSICIAN_COLUMN \<notin> set (columns demo_table)"
    by (simp add: demo_table_def SENT_TO_PHYSICIAN_COLUMN_def)
  from inst [where rt = demo_runtime and df = demo_table and config = ?cfg and t = "3 * ns_per_day"] n
  have 1: "calculate_stats ?rt3 demo_table ?cfg = calculate_stats demo_runtime demo_table ?cfg"
    by blast
  have "\<not> isl (calculate_stats demo_runtime demo_sla_table ?cfg)" by code_simp
  then obtain s1 where s1: "calculate_stats demo_runtime demo_sla_table ?cfg = Inr s1"
    by (cases "calculate_stats demo_runtime demo_sla_table ?cfg") simp_all
  from inst [where rt = demo_runtime and df = demo_sla_table and config = ?cfg and t = "3 * ns_per_day"] s1
  have "\<not> isl (calculate_stats ?rt3 demo_sla_table ?cfg)" by simp
  then obtain s2 where s2: "calculate_stats ?rt3 demo_sla_table ?cfg = Inr s2"
    by (cases "calculate_stats ?rt3 demo_sla_table ?cfg") simp_all
  have poc: "pending_overdue_count (sla (projr (calculate_stats demo_runtime demo_sla_table ?cfg)))
               = Some 1"
    by code_simp
  from inst [where rt = demo_runtime and df = demo_sla_table and config = ?cfg and t = "3 * ns_per_day"] s1 s2
  have 2: "s1 = s2\<lparr>sla := (sla s2)\<lparr>pending_overdue_count := pending_overdue_count (sla s1)\<rparr>\<rparr>"
    by blast
  have 3: "pending_overdue_count (sla s1) = Some 1" using poc s1 by simp
  have 4: "failure_count s2 = failure_count s1" using 2 by (cases s1, cases s2) simp
  from n 1 s1 s2 2 3 4 show ?thesis by auto
qed

subsection \<open>Zero-row tables and blank identifiers\<close>

text \<open>
  C3. The stats of a table without rows: counts 0, rates \<open>0.0%\<close>, no reasons, no
  inspected columns, the SLA metrics of the table, and no \<open>failure_details\<close> entry at
  all, where a table with one passing row has an empty \<open>failure_details\<close> entry.
\<close>

theorem calculate_stats_zero_rows_no_failure_details:
  "calculate_stats demo_runtime \<lparr>columns = [''OrderId'', ''Remarks''], rows = []\<rparr>
     (resolve_agency_config ''axxess'') =
   Inr \<lparr>total_rows = 0, success_rate = ''0.0%'', failure_rate = ''0.0%'',
        signed_count = 0, unsigned_count = 0, failure_count = 0, success_count = 0,
        unique_failure_reasons = [], failure_reason_counts = Map.empty,
        failure_details = None, inspected_status_columns = [],
        sla = \<lparr>average_days_to_sign = None, max_days_to_sign = None, min_days_to_sign = None,
               pending_overdue_count = None\<rparr>\<rparr> \<and>
   compute_sla_metrics demo_runtime \<lparr>columns = [''OrderId'', ''Remarks''], rows = []\<rparr> =
     Inr \<lparr>average_days_to_sign = None, max_days_to_sign = None, min_days_to_sign = None,
          pending_overdue_count = None\<rparr> \<and>
   map_sum id failure_details (calculate_stats demo_runtime
      \<lparr>columns = [''OrderId'', ''Remarks''], rows = [[Some ''A1'', Some ''done'']]\<rparr>
      (resolve_agency_config ''axxess'')) = Inr (Some Map.empty)"
proof (intro conjI)
  have s: "compute_sla_metrics demo_runtime \<lparr>columns = [''OrderId'', ''Remarks''], rows = []\<rparr> =
     Inr \<lparr>average_days_to_sign = None, max_days_to_sign = None, min_days_to_sign = None,
          pending_overdue_count = None\<rparr>"
    by (simp add: compute_sla_metrics_def SIGNATURE_COLUMN_def)
  show "compute_sla_metrics demo_runtime \<lparr>columns = [''OrderId'', ''Remarks''], rows = []\<rparr> =
     Inr \<lparr>average_days_to_sign = None, max_days_to_sign = None, min_days_to_sign = None,
          pending_overdue_count = None\<rparr>"
    by (rule s)
  show "calculate_stats demo_runtime \<lparr>columns = [''OrderId'', ''Remarks''], rows = []\<rparr>
     (resolve_agency_config ''axxess'') =
   Inr \<lparr>total_rows = 0, success_rate = ''0.0%'', failure_rate = ''0.0%'',
        signed_count = 0, unsigned_count = 0, failure_count = 0, success_count = 0,
        unique_failure_reasons = [], failure_reason_counts = Map.empty,
        failure_details = None, inspected_status_columns = [],
        sla = \<lparr>average_days_to_sign = None, max_days_to_sign = None, min_days_to_sign = None,
               pending_overdue_count = None\<rparr>\<rparr>"
    by (simp add: calculate_stats_no_rows s)
  have m: "build_failure_mask \<lparr>columns = [''OrderId'', ''Remarks''], rows = [[Some ''A1'', Some ''done'']]\<rparr>
            (failure_keywords (resolve_agency_config ''axxess''))
            (status_columns (resolve_agency_config ''axxess''))
           = ([False], [''Remarks''],
              [''error'', ''failed'', ''mandatory'', ''missing'', ''no patient'', ''non da'', ''not valid''])"
    by code_simp
  have s1: "compute_sla_metrics demo_runtime
      \<lparr>columns = [''OrderId'', ''Remarks''], rows = [[Some ''A1'', Some ''done'']]\<rparr> =
     Inr \<lparr>average_days_to_sign = None, max_days_to_sign = None, min_days_to_sign = None,
          pending_overdue_count = None\<rparr>"
    by (simp add: compute_sla_metrics_def SIGNATURE_COLUMN_def)
  show "map_sum id failure_details (calculate_stats demo_runtime
      \<lparr>columns = [''OrderId'', ''Remarks''], rows = [[Some ''A1'', Some ''done'']]\<rparr>
      (resolve_agency_config ''axxess'')) = Inr (Some Map.empty)"
    by (simp add: calculate_stats_rows [OF _ m] s1)
qed

theorem calculate_stats_zero_rows_no_failure_details_witness:
  "map_sum id failure_details
     (calculate_stats demo_runtime \<lparr>columns = [''OrderId'', ''Remarks''], rows = []\<rparr>
        (resolve_agency_config ''axxess'')) = Inr None \<and>
   map_sum id total_rows
     (calculate_stats demo_runtime \<lparr>columns = [''OrderId'', ''Remarks''], rows = []\<rparr>
        (resolve_agency_config ''axxess'')) = Inr 0 \<and>
   map_sum id unique_failure_reasons
     (calculate_stats demo_runtime \<lparr>columns = [''OrderId'', ''Remarks''], rows = []\<rparr>
        (resolve_agency_config ''axxess'')) = Inr []"
proof -
  from calculate_stats_zero_rows_no_failure_details
  have "calculate_stats demo_runtime \<lparr>columns = [''OrderId'', ''Remarks''], rows = []\<rparr>
     (resolve_agency_config ''axxess'') =
   Inr \<lparr>total_rows = 0, success_rate = ''0.0%'', failure_rate = ''0.0%'',
        signed_count = 0, unsigned_count = 0, failure_count = 0, success_count = 0,
        unique_failure_reasons = [], failure_reason_counts = Map.empty,
        failure_details = None, inspected_status_columns = [],
        sla = \<lparr>average_days_to_sign = None, max_days_to_sign = None, min_days_to_sign = None,
               pending_overdue_count = None\<rparr>\<rparr>"
    by (rule conjunct1)
  then show ?thesis by simp
qed

text \<open>
  C2. The identifiers of a table with both \<open>OrderId\<close> and \<open>Order Number\<close>: only
  \<open>OrderId\<close> values, trimmed, the missing one left out, and the empty text that a
  blank cell is trimmed to.
\<close>

theorem extract_order_identifiers_keeps_blank:
  "extract_order_identifiers
     \<lparr>columns = [''OrderId'', ''Order Number''],
      rows = [[Some '' A1 '', Some ''N1''], [Some ''  '', Some ''N2''], [None, Some ''N3'']]\<rparr>
   = {''A1'', ''''}"
  by code_simp

subsection \<open>Pairing\<close>

lemma emit_pairs_summary:
  "p \<in> set (emit_pairs pair_map ks) \<Longrightarrow>
   summary p = summarize_pair_entries (signed_entry p) (unsigned_entry p) \<and>
   (signed_entry p \<noteq> None \<or> unsigned_entry p \<noteq> None)"
  by (induction ks) (auto split: option.splits if_splits)

lemma build_pair_results_summary:
  "p \<in> set (build_pair_results results) \<Longrightarrow>
   summary p = summarize_pair_entries (signed_entry p) (unsigned_entry p) \<and>
   (signed_entry p \<noteq> None \<or> unsigned_entry p \<noteq> None)"
  unfolding build_pair_results_def Let_def
  by (auto split: prod.splits dest: emit_pairs_summary)

lemma summarize_pending:
  "pending_signature_orders (summarize_pair_entries sg us) =
     sorted_list_of_set (side_order_ids us - side_order_ids sg)"
  "signed_without_unsigned_source (summarize_pair_entries sg us) =
     sorted_list_of_set (side_order_ids sg - side_order_ids us)"
  by (simp_all add: summarize_pair_entries_def Let_def)

lemma build_pair_results_two:
  assumes "template_type s = ''signed''" and "template_type u = ''unsigned''"
    and "composite_key s = composite_key u"
  shows "build_pair_results [s, u] =
           [\<lparr>result_pair_key = snd (composite_key s), result_agency = fst (composite_key s),
             signed_entry = Some s, unsigned_entry = Some u,
             summary = summarize_pair_entries (Some s) (Some u)\<rparr>]"
  using assms by (simp add: build_pair_results_def place_entry_def Let_def)

text \<open>
  C6. In every pair that \<open>build_pair_results\<close> returns, at least one side is present,
  \<open>pending_signature_orders\<close> is the sorted list of the unsigned identifiers that are
  not signed and \<open>signed_without_unsigned_source\<close> the sorted list of the signed
  identifiers that are not unsigned, a missing side counting as the empty set. A signed
  and an unsigned analysis with the same agency and pair key form one pair with these
  two lists.
\<close>

theorem build_pair_results_deltas:
  "(\<forall>p\<in>set (build_pair_results results).
      (signed_entry p \<noteq> None \<or> unsigned_entry p \<noteq> None) \<and>
      pending_signature_orders (summary p) =
        sorted_list_of_set (side_order_ids (unsigned_entry p) - side_order_ids (signed_entry p)) \<and>
      signed_without_unsigned_source (summary p) =
        sorted_list_of_set (side_order_ids (signed_entry p) - side_order_ids (unsigned_entry p)) \<and>
      (finite (side_order_ids (unsigned_entry p)) \<and> finite (side_order_ids (signed_entry p)) \<longrightarrow>
         sorted (pending_signature_orders (summary p)) \<and>
         distinct (pending_signature_orders (summary p)) \<and>
         set (pending_signature_orders (summary p)) =
           side_order_ids (unsigned_entry p) - side_order_ids (signed_entry p) \<and>
         sorted (signed_without_unsigned_source (summary p)) \<and>
         distinct (signed_without_unsigned_source (summary p)) \<and>
         set (signed_without_unsigned_source (summary p)) =
           side_order_ids (signed_entry p) - side_order_ids (unsigned_entry p))) \<and>
   side_order_ids None = {} \<and>
   (template_type s = ''signed'' \<and> template_type u = ''unsigned'' \<and>
    composite_key s = composite_key u \<longrightarrow>
      build_pair_results [s, u] =
        [\<lparr>result_pair_key = snd (composite_key s), result_agency = agency s,
          signed_entry = Some s, unsigned_entry = Some u,
          summary = summarize_pair_entries (Some s) (Some u)\<rparr>] \<and>
      pending_signature_orders (summarize_pair_entries (Some s) (Some u)) =
        sorted_list_of_set (order_ids u - order_ids s) \<and>
      signed_without_unsigned_source (summarize_pair_entries (Some s) (Some u)) =
        sorted_list_of_set (order_ids s - order_ids u))"
proof (intro conjI ballI impI)
  fix p assume p: "p \<in> set (build_pair_results results)"
  note sm = build_pair_results_summary [OF p]
  show "signed_entry p \<noteq> None \<or> unsigned_entry p \<noteq> None" using sm by simp
  show a: "pending_signature_orders (summary p) =
        sorted_list_of_set (side_order_ids (unsigned_entry p) - side_order_ids (signed_entry p))"
    using sm by (simp add: summarize_pending)
  show b: "signed_without_unsigned_source (summary p) =
        sorted_list_of_set (side_order_ids (signed_entry p) - side_order_ids (unsigned_entry p))"
    using sm by (simp add: summarize_pending)
  assume f: "finite (side_order_ids (unsigned_entry p)) \<and> finite (side_order_ids (signed_entry p))"
  show "sorted (pending_signature_orders (summary p))" unfolding a by simp
  show "distinct (pending_signature_orders (summary p))" unfolding a by simp
  show "set (pending_signature_orders (summary p)) =
           side_order_ids (unsigned_entry p) - side_order_ids (signed_entry p)"
    unfolding a using f by simp
  show "sorted (signed_without_unsigned_source (summary p))" unfolding b by simp
  show "distinct (signed_without_unsigned_source (summary p))" unfolding b by simp
  show "set (signed_without_unsigned_source (summary p)) =
           side_order_ids (signed_entry p) - side_order_ids (unsigned_entry p)"
    unfolding b using f by simp
next
  show "side_order_ids None = {}" by (simp add: side_order_ids_def)
next
  assume h: "template_type s = ''signed'' \<and> template_type u = ''unsigned'' \<and>
    composite_key s = composite_key u"
  then show "build_pair_results [s, u] =
        [\<lparr>result_pair_key = snd (composite_key s), result_agency = agency s,
          signed_entry = Some s, unsigned_entry = Some u,
          summary = summarize_pair_entries (Some s) (Some u)\<rparr>]"
    using build_pair_results_two [of s u] by (simp add: composite_key_def)
  show "pending_signature_orders (summarize_pair_entries (Some s) (Some u)) =
        sorted_list_of_set (order_ids u - order_ids s)"
    by (simp add: summarize_pending side_order_ids_def)
  show "signed_without_unsigned_source (summarize_pair_entries (Some s) (Some u)) =
        sorted_list_of_set (order_ids s - order_ids u)"
    by (simp add: summarize_pending side_order_ids_def)
qed

theorem build_pair_results_deltas_witness:
  "map (\<lambda>p. (pending_signature_orders (summary p), signed_without_unsigned_source (summary p)))
     (build_pair_results
        [demo_analysis ''X'' ''signed'' ''Agency_SignedOrderTemplate.csv'' [''A'', ''B''],
         demo_analysis ''X'' ''unsigned'' ''Agency_Unsigned.xlsx'' [''B'', ''C'']])
   = [([''C''], [''A''])]"
proof -
  let ?s = "demo_analysis ''X'' ''signed'' ''Agency_SignedOrderTemplate.csv'' [''A'', ''B'']"
  let ?u = "demo_analysis ''X'' ''unsigned'' ''Agency_Unsigned.xlsx'' [''B'', ''C'']"
  let ?p = "\<lparr>result_pair_key = snd (composite_key ?s), result_agency = agency ?s,
          signed_entry = Some ?s, unsigned_entry = Some ?u,
          summary = summarize_pair_entries (Some ?s) (Some ?u)\<rparr>"
  have ts: "template_type ?s = ''signed''" by (simp add: demo_analysis_def)
  have tu: "template_type ?u = ''unsigned''" by (simp add: demo_analysis_def)
  have k: "composite_key ?s = composite_key ?u" by code_simp
  have o1: "sorted_list_of_set (side_order_ids (Some ?u) - side_order_ids (Some ?s)) = [''C'']"
    by code_simp
  have o2: "sorted_list_of_set (side_order_ids (Some ?s) - side_order_ids (Some ?u)) = [''A'']"
    by code_simp
  note inst = build_pair_results_deltas [of "[?s, ?u]" ?s ?u]
  from inst ts tu k have eq: "build_pair_results [?s, ?u] = [?p]" by blast
  from inst have
    "\<forall>p\<in>set (build_pair_results [?s, ?u]).
       pending_signature_orders (summary p) =
         sorted_list_of_set (side_order_ids (unsigned_entry p) - side_order_ids (signed_entry p)) \<and>
       signed_without_unsigned_source (summary p) =
         sorted_list_of_set (side_order_ids (signed_entry p) - side_order_ids (unsigned_entry p))"
    by blast
  then have
    "pending_signature_orders (summary ?p) =
       sorted_list_of_set (side_order_ids (unsigned_entry ?p) - side_order_ids (signed_entry ?p)) \<and>
     signed_without_unsigned_source (summary ?p) =
       sorted_list_of_set (side_order_ids (signed_entry ?p) - side_order_ids (unsigned_entry ?p))"
    unfolding eq by simp
  then have "pending_signature_orders (summary ?p) = [''C''] \<and>
     signed_without_unsigned_source (summary ?p) = [''A'']"
    using o1 o2 by simp
  then show ?thesis unfolding eq by simp
qed

subsection \<open>Reconciliation\<close>

lemma map_of_grouped_update:
  "map_of (grouped_update a f g) = (map_of g)(a \<mapsto> f (slot_of g a))"
  by (induction g) (auto simp: slot_of_def fun_eq_iff)

lemma keys_grouped_update:
  "map fst (grouped_update a f g) = (if a \<in> set (map fst g) then map fst g else map fst g @ [a])"
  by (induction g) (auto simp: rev_image_eqI)

lemma slot_of_grouped_update:
  "slot_of (grouped_update a f g) b = (if b = a then f (slot_of g a) else slot_of g b)"
  by (simp add: slot_of_def map_of_grouped_update)

lemma keys_group_entry:
  "map fst (group_entry e g) =
     (if (template_type e = ''signed'' \<or> template_type e = ''unsigned'') \<and> agency e \<notin> set (map fst g)
      then map fst g @ [agency e] else map fst g)"
  by (simp add: group_entry_def keys_grouped_update)

lemma slot_of_group_entry:
  "slot_of (group_entry e g) a =
     (if agency e = a \<and> template_type e = ''signed''
        then (fst (slot_of g a) \<union> order_ids e, snd (slot_of g a))
      else if agency e = a \<and> template_type e = ''unsigned''
        then (fst (slot_of g a), snd (slot_of g a) \<union> order_ids e)
      else slot_of g a)"
  by (auto simp: group_entry_def slot_of_grouped_update split: prod.splits)

lemma batch_ids_Nil [simp]: "batch_ids ty a [] = {}"
  by (simp add: batch_ids_def)

lemma batch_ids_Cons:
  "batch_ids ty a (e # es) =
     (if agency e = a \<and> template_type e = ty then order_ids e \<union> batch_ids ty a es
      else batch_ids ty a es)"
  by (simp add: batch_ids_def)

lemma distinct_fold_group_entry:
  "distinct (map fst g) \<Longrightarrow> distinct (map fst (fold group_entry rs g))"
  by (induction rs arbitrary: g) (auto simp: keys_group_entry)

lemma keys_fold_group_entry:
  "set (map fst (fold group_entry rs g)) =
     set (map fst g) \<union>
     agency ` {e \<in> set rs. template_type e = ''signed'' \<or> template_type e = ''unsigned''}"
proof (induction rs arbitrary: g)
  case Nil
  show ?case by simp
next
  case (Cons e es)
  have "set (map fst (fold group_entry (e # es) g)) =
          set (map fst (group_entry e g)) \<union>
          agency ` {x \<in> set es. template_type x = ''signed'' \<or> template_type x = ''unsigned''}"
    using Cons.IH [of "group_entry e g"] by simp
  also have "\<dots> = set (map fst g) \<union>
     agency ` {x \<in> set (e # es). template_type x = ''signed'' \<or> template_type x = ''unsigned''}"
    unfolding keys_group_entry by auto
  finally show ?case .
qed

lemma slot_of_fold_group_entry:
  "slot_of (fold group_entry rs g) a =
     (fst (slot_of g a) \<union> batch_ids ''signed'' a rs,
      snd (slot_of g a) \<union> batch_ids ''unsigned'' a rs)"
proof (induction rs arbitrary: g)
  case Nil
  show ?case by simp
next
  case (Cons e es)
  have "slot_of (fold group_entry (e # es) g) a =
          (fst (slot_of (group_entry e g) a) \<union> batch_ids ''signed'' a es,
           snd (slot_of (group_entry e g) a) \<union> batch_ids ''unsigned'' a es)"
    using Cons.IH [of "group_entry e g"] by simp
  also have "\<dots> = (fst (slot_of g a) \<union> batch_ids ''signed'' a (e # es),
      snd (slot_of g a) \<union> batch_ids ''unsigned'' a (e # es))"
    unfolding slot_of_group_entry batch_ids_Cons by auto
  finally show ?case .
qed

lemma grouped_member:
  assumes "(a, sg, us) \<in> set (fold group_entry rs [])"
  shows "sg = batch_ids ''signed'' a rs \<and> us = batch_ids ''unsigned'' a rs"
proof -
  have d: "distinct (map fst (fold group_entry rs []))"
    by (rule distinct_fold_group_entry) simp
  from assms d have "map_of (fold group_entry rs []) a = Some (sg, us)" by simp
  then have "slot_of (fold group_entry rs []) a = (sg, us)" by (simp add: slot_of_def)
  then show ?thesis
    unfolding slot_of_fold_group_entry by (simp add: slot_of_def)
qed

lemma recon_agency_reconcile: "map (recon_agency \<circ> reconcile) g = map fst g"
  by (induction g) (auto simp: reconcile_def)

text \<open>
  C7. An empty batch gives the empty list. Otherwise the result holds each agency that
  has an analysis of template type exactly \<open>signed\<close> or \<open>unsigned\<close> once, and no other
  agency; the entry of an agency counts the union of the identifiers of its unsigned
  analyses and the union of those of its signed analyses, and lists the sorted
  differences of the two unions.
\<close>

theorem build_reconciliation_summary_per_agency:
  "build_reconciliation_summary [] = [] \<and>
   distinct (map recon_agency (build_reconciliation_summary results)) \<and>
   set (map recon_agency (build_reconciliation_summary results)) =
     agency ` {e \<in> set results. template_type e = ''signed'' \<or> template_type e = ''unsigned''} \<and>
   (\<forall>r\<in>set (build_reconciliation_summary results).
      unsigned_total r = int (card (batch_ids ''unsigned'' (recon_agency r) results)) \<and>
      signed_total r = int (card (batch_ids ''signed'' (recon_agency r) results)) \<and>
      recon_pending_signature_orders r =
        sorted_list_of_set (batch_ids ''unsigned'' (recon_agency r) results
                            - batch_ids ''signed'' (recon_agency r) results) \<and>
      recon_signed_without_unsigned_source r =
        sorted_list_of_set (batch_ids ''signed'' (recon_agency r) results
                            - batch_ids ''unsigned'' (recon_agency r) results))"
proof (intro conjI ballI)
  show "build_reconciliation_summary [] = []" by (simp add: build_reconciliation_summary_def)
  show "distinct (map recon_agency (build_reconciliation_summary results))"
    unfolding build_reconciliation_summary_def
    using distinct_fold_group_entry [of "[]" results] by (simp add: recon_agency_reconcile)
  show "set (map recon_agency (build_reconciliation_summary results)) =
     agency ` {e \<in> set results. template_type e = ''signed'' \<or> template_type e = ''unsigned''}"
  proof (cases "results = []")
    case True
    then show ?thesis by (simp add: build_reconciliation_summary_def)
  next
    case False
    then have "map recon_agency (build_reconciliation_summary results)
                 = map fst (fold group_entry results [])"
      by (simp add: build_reconciliation_summary_def recon_agency_reconcile)
    then show ?thesis using keys_fold_group_entry [of results "[]"] by simp
  qed
next
  fix r assume "r \<in> set (build_reconciliation_summary results)"
  then have "r \<in> reconcile ` set (fold group_entry results [])"
    by (auto simp: build_reconciliation_summary_def split: if_splits)
  then obtain a sg us where m: "(a, sg, us) \<in> set (fold group_entry results [])"
    and r: "r = reconcile (a, sg, us)" by auto
  from grouped_member [OF m]
  have sg: "sg = batch_ids ''signed'' a results" and us: "us = batch_ids ''unsigned'' a results"
    by simp_all
  have a: "recon_agency r = a" by (simp add: r reconcile_def)
  show "unsigned_total r = int (card (batch_ids ''unsigned'' (recon_agency r) results))"
    unfolding a by (simp add: r reconcile_def us)
  show "signed_total r = int (card (batch_ids ''signed'' (recon_agency r) results))"
    unfolding a by (simp add: r reconcile_def sg)
  show "recon_pending_signature_orders r =
        sorted_list_of_set (batch_ids ''unsigned'' (recon_agency r) results
                            - batch_ids ''signed'' (recon_agency r) results)"
    unfolding a by (simp add: r reconcile_def sg us)
  show "recon_signed_without_unsigned_source r =
        sorted_list_of_set (batch_ids ''signed'' (recon_agency r) results
                            - batch_ids ''unsigned'' (recon_agency r) results)"
    unfolding a by (simp add: r reconcile_def sg us)
qed

theorem build_reconciliation_summary_per_agency_witness:
  "build_reconciliation_summary demo_batch =
     [\<lparr>recon_agency = ''X'', unsigned_total = 3, signed_total = 1,
       recon_pending_signature_orders = [''1'', ''3''],
       recon_signed_without_unsigned_source = []\<rparr>] \<and>
   int (card (batch_ids ''unsigned'' ''X'' demo_batch)) = 3 \<and>
   int (card (batch_ids ''signed'' ''X'' demo_batch)) = 1 \<and>
   sorted_list_of_set (batch_ids ''unsigned'' ''X'' demo_batch - batch_ids ''signed'' ''X'' demo_batch)
     = [''1'', ''3'']"
proof -
  let ?r = "\<lparr>recon_agency = ''X'', unsigned_total = 3, signed_total = 1,
       recon_pending_signature_orders = [''1'', ''3''],
       recon_signed_without_unsigned_source = []\<rparr>"
  have out: "build_reconciliation_summary demo_batch = [?r]" by code_simp
  from build_reconciliation_summary_per_agency [of demo_batch]
  have "\<forall>r\<in>set (build_reconciliation_summary demo_batch).
      unsigned_total r = int (card (batch_ids ''unsigned'' (recon_agency r) demo_batch)) \<and>
      signed_total r = int (card (batch_ids ''signed'' (recon_agency r) demo_batch)) \<and>
      recon_pending_signature_orders r =
        sorted_list_of_set (batch_ids ''unsigned'' (recon_agency r) demo_batch
                            - batch_ids ''signed'' (recon_agency r) demo_batch)"
    by blast
  then have "unsigned_total ?r = int (card (batch_ids ''unsigned'' (recon_agency ?r) demo_batch)) \<and>
      signed_total ?r = int (card (batch_ids ''signed'' (recon_agency ?r) demo_batch)) \<and>
      recon_pending_signature_orders ?r =
        sorted_list_of_set (batch_ids ''unsigned'' (recon_agency ?r) demo_batch
                            - batch_ids ''signed'' (recon_agency ?r) demo_batch)"
    unfolding out by simp
  with out show ?thesis by simp
qed

subsection \<open>Reason collection\<close>























lemma count_list_map_filter:
  "count_list (map f (filter P xs)) v =
     sum_list (map (\<lambda>x. if P x \<and> f x = v then 1 else 0) xs)"
  by (induction xs) auto














end
